theory Spec2Isabelle
  imports Complex_Main "HOL-Library.AList"
begin

section \<open>Phase model (workflow/models/drawing\_phase.py)\<close>

text \<open>
  The five phases of the drawing workflow, in the order of the Python enum.
  \<open>phase_value\<close> is the enum member's \<open>.value\<close>.
\<close>

datatype DrawingPhase = SKETCH | REFINEMENT | STYLIZATION | RENDERING | COMPLETE

fun phase_value :: "DrawingPhase \<Rightarrow> string" where
  "phase_value SKETCH = ''sketch''"
| "phase_value REFINEMENT = ''refinement''"
| "phase_value STYLIZATION = ''stylization''"
| "phase_value RENDERING = ''rendering''"
| "phase_value COMPLETE = ''complete''"

text \<open>
  A Python float that takes part in arithmetic or in a comparison: a finite double, given
  by its exact value, an infinity or a NaN. Comparisons of doubles are exact;
  every comparison with a NaN is false.
\<close>

datatype pyfloat = Finite real | PosInf | NegInf | NaN

fun float_le :: "pyfloat \<Rightarrow> pyfloat \<Rightarrow> bool" where
  "float_le NaN b = False"
| "float_le a NaN = False"
| "float_le NegInf b = True"
| "float_le a PosInf = True"
| "float_le (Finite v) (Finite w) = (v \<le> w)"
| "float_le a b = False"

fun float_lt :: "pyfloat \<Rightarrow> pyfloat \<Rightarrow> bool" where
  "float_lt NaN b = False"
| "float_lt a NaN = False"
| "float_lt PosInf b = False"
| "float_lt a NegInf = False"
| "float_lt (Finite v) (Finite w) = (v < w)"
| "float_lt a b = True"

text \<open>
  The arithmetic on floats belongs to the Python runtime, not to the repository: every
  operation rounds to a double, and the builtin \<open>sum\<close> adds floats with a compensated
  summation. The model takes it as a parameter: \<open>float_sum\<close> is \<open>sum(values)\<close>,
  \<open>float_div x n\<close> is \<open>x / n\<close> for a positive integer \<open>n\<close>, \<open>float_sub\<close> is \<open>-\<close>.
  \<open>py_mean\<close> is the expression \<open>sum(values) / len(values)\<close>.
\<close>

record float_arith =
  float_sum :: "pyfloat list \<Rightarrow> pyfloat"
  float_div :: "pyfloat \<Rightarrow> nat \<Rightarrow> pyfloat"
  float_sub :: "pyfloat \<Rightarrow> pyfloat \<Rightarrow> pyfloat"

definition py_mean :: "float_arith \<Rightarrow> pyfloat list \<Rightarrow> pyfloat" where
  "py_mean fa vs = float_div fa (float_sum fa vs) (length vs)"

text \<open>The double that the literal \<open>0.4\<close> denotes.\<close>

definition literal_0_4 :: pyfloat where
  "literal_0_4 = Finite (3602879701896397 / 9007199254740992)"

text \<open>
  Python values of type \<open>Any\<close> that end up in metadata dictionaries. A dictionary is an
  association list in insertion order; \<open>AList.update\<close> is Python's item assignment
  (an existing key keeps its place, a new key goes to the end).
\<close>

datatype pyval =
    PNone
  | PBool bool
  | PInt int
  | PFloat pyfloat
  | PStr string
  | PList "pyval list"
  | PDict "(string \<times> pyval) list"

type_synonym pydict = "(string \<times> pyval) list"

text \<open>
  Clock readings (\<open>datetime.now()\<close>) are inputs of the model: every function that
  reads the clock takes the reading as an argument. A float that is only stored and
  copied (a confidence, an opacity, a coordinate) is modelled by its real value; the
  values of a metrics map are averaged and compared, so they are \<open>pyfloat\<close>s.
\<close>

type_synonym datetime = nat

type_synonym metrics = "(string \<times> pyfloat) list"

record PhaseTransition =
  from_phase :: DrawingPhase
  to_phase :: DrawingPhase
  timestamp :: datetime
  reason :: string
  metrics :: metrics
  confidence :: real

text \<open>The class attribute \<open>VALID_TRANSITIONS\<close>: a dictionary from phase to set of phases.\<close>

definition VALID_TRANSITIONS :: "DrawingPhase \<rightharpoonup> DrawingPhase set" where
  "VALID_TRANSITIONS =
     [SKETCH \<mapsto> {SKETCH, REFINEMENT},
      REFINEMENT \<mapsto> {SKETCH, REFINEMENT, STYLIZATION},
      STYLIZATION \<mapsto> {REFINEMENT, STYLIZATION, RENDERING},
      RENDERING \<mapsto> {STYLIZATION, RENDERING, COMPLETE},
      COMPLETE \<mapsto> {COMPLETE, RENDERING}]"

text \<open>\<open>to_phase in cls.VALID_TRANSITIONS.get(from_phase, set())\<close>\<close>

definition is_valid_transition :: "DrawingPhase \<Rightarrow> DrawingPhase \<Rightarrow> bool" where
  "is_valid_transition from_p to_p =
     (to_p \<in> (case VALID_TRANSITIONS from_p of None \<Rightarrow> {} | Some s \<Rightarrow> s))"

text \<open>
  The table of section 4.1 of the specification, written from the specification's words,
  and the position of a phase in the fixed order. Both are used only to state claim C1.
\<close>

fun spec_table :: "DrawingPhase \<Rightarrow> DrawingPhase set" where
  "spec_table SKETCH = {SKETCH, REFINEMENT}"
| "spec_table REFINEMENT = {SKETCH, REFINEMENT, STYLIZATION}"
| "spec_table STYLIZATION = {REFINEMENT, STYLIZATION, RENDERING}"
| "spec_table RENDERING = {STYLIZATION, RENDERING, COMPLETE}"
| "spec_table COMPLETE = {COMPLETE, RENDERING}"

fun phase_index :: "DrawingPhase \<Rightarrow> int" where
  "phase_index SKETCH = 0"
| "phase_index REFINEMENT = 1"
| "phase_index STYLIZATION = 2"
| "phase_index RENDERING = 3"
| "phase_index COMPLETE = 4"

section \<open>Workflow state (workflow/models/workflow\_state.py)\<close>

record WorkflowState =
  current_phase :: DrawingPhase
  phase_history :: "PhaseTransition list"
  phase_start_time :: datetime
  iteration_in_phase :: int
  total_strokes :: int
  phase_stroke_count :: int
  workflow_id :: string
  ws_metadata :: pydict

text \<open>
  The dataclass defaults. The clock reading behind \<open>phase_start_time\<close> and the text of
  the generated \<open>workflow_id\<close> are inputs.
\<close>

definition WorkflowState_init :: "datetime \<Rightarrow> string \<Rightarrow> WorkflowState" where
  "WorkflowState_init now wid =
     \<lparr>current_phase = SKETCH, phase_history = [], phase_start_time = now,
      iteration_in_phase = 0, total_strokes = 0, phase_stroke_count = 0,
      workflow_id = wid, ws_metadata = []\<rparr>"

text \<open>
  \<open>WorkflowState.transition_to_phase\<close>. The method mutates \<open>self\<close> and returns a bool;
  the model returns the bool and the new state. \<open>now1\<close> is the clock reading taken by the
  \<open>PhaseTransition\<close> constructor, \<open>now2\<close> the one stored in \<open>phase_start_time\<close>.
  \<open>metrics or {}\<close> turns \<open>None\<close> into the empty dictionary.
\<close>

definition WorkflowState_transition_to_phase ::
  "WorkflowState \<Rightarrow> DrawingPhase \<Rightarrow> string \<Rightarrow> metrics option \<Rightarrow> real
     \<Rightarrow> datetime \<Rightarrow> datetime \<Rightarrow> bool \<times> WorkflowState" where
  "WorkflowState_transition_to_phase self new_phase rsn mtr conf now1 now2 =
     (if \<not> is_valid_transition (current_phase self) new_phase then (False, self)
      else
        let transition =
              \<lparr>from_phase = current_phase self, to_phase = new_phase, timestamp = now1,
               reason = rsn, metrics = (case mtr of None \<Rightarrow> [] | Some m \<Rightarrow> m),
               confidence = conf\<rparr>;
            s1 = self\<lparr>phase_history := phase_history self @ [transition]\<rparr>;
            s2 = s1\<lparr>current_phase := new_phase\<rparr>;
            s3 = s2\<lparr>phase_start_time := now2\<rparr>;
            s4 = (if new_phase = from_phase transition
                  then s3\<lparr>iteration_in_phase := iteration_in_phase s3 + 1\<rparr>
                  else s3\<lparr>iteration_in_phase := 0\<rparr>);
            s5 = s4\<lparr>phase_stroke_count := 0\<rparr>
        in (True, s5))"

definition record_stroke :: "WorkflowState \<Rightarrow> WorkflowState" where
  "record_stroke self =
     (let s1 = self\<lparr>total_strokes := total_strokes self + 1\<rparr>
      in s1\<lparr>phase_stroke_count := phase_stroke_count s1 + 1\<rparr>)"

section \<open>Memory: shared metadata dictionaries\<close>

text \<open>
  Python dictionaries are objects, and the metadata dictionaries of canvases, layers and
  strokes are handed around by reference. The model keeps them in an explicit store:
  an address names a dictionary object, \<open>cells\<close> gives its current content and
  \<open>next_addr\<close> is the next unused address. All other fields hold immutable Python
  values (numbers, strings, tuples, enum members) or containers that the modelled code
  rebuilds instead of sharing, so they are modelled by value.
\<close>

type_synonym addr = nat

record heap =
  cells :: "addr \<Rightarrow> pydict"
  next_addr :: addr

text \<open>A fresh empty dictionary \<open>{}\<close>.\<close>

definition new_dict :: "heap \<Rightarrow> addr \<times> heap" where
  "new_dict h = (next_addr h, h\<lparr>cells := (cells h)(next_addr h := []), next_addr := Suc (next_addr h)\<rparr>)"

text \<open>\<open>d[k] = v\<close> on the dictionary object at address \<open>a\<close>.\<close>

definition dict_setitem :: "heap \<Rightarrow> addr \<Rightarrow> string \<Rightarrow> pyval \<Rightarrow> heap" where
  "dict_setitem h a k v = h\<lparr>cells := (cells h)(a := AList.update k v (cells h a))\<rparr>"

text \<open>\<open>d.update({k1: v1, ...})\<close>: the items are assigned in order.\<close>

fun dict_update :: "heap \<Rightarrow> addr \<Rightarrow> pydict \<Rightarrow> heap" where
  "dict_update h a [] = h"
| "dict_update h a ((k, v) # kvs) = dict_update (dict_setitem h a k v) a kvs"

text \<open>Exceptions that the modelled code can raise.\<close>

datatype error = ValueError | AttributeError

section \<open>Canvas and layers (motor/core/canvas.py)\<close>

datatype BlendMode = NORMAL | MULTIPLY | SCREEN | OVERLAY | DARKEN | LIGHTEN | ADD | SUBTRACT

fun blend_value :: "BlendMode \<Rightarrow> string" where
  "blend_value NORMAL = ''normal''"
| "blend_value MULTIPLY = ''multiply''"
| "blend_value SCREEN = ''screen''"
| "blend_value OVERLAY = ''overlay''"
| "blend_value DARKEN = ''darken''"
| "blend_value LIGHTEN = ''lighten''"
| "blend_value ADD = ''add''"
| "blend_value SUBTRACT = ''subtract''"

text \<open>\<open>BlendMode(text)\<close>: the member with that value, or \<open>ValueError\<close>.\<close>

definition BlendMode_of_value :: "string \<Rightarrow> error + BlendMode" where
  "BlendMode_of_value s =
     (if s = ''normal'' then Inr NORMAL
      else if s = ''multiply'' then Inr MULTIPLY
      else if s = ''screen'' then Inr SCREEN
      else if s = ''overlay'' then Inr OVERLAY
      else if s = ''darken'' then Inr DARKEN
      else if s = ''lighten'' then Inr LIGHTEN
      else if s = ''add'' then Inr ADD
      else if s = ''subtract'' then Inr SUBTRACT
      else Inl ValueError)"

type_synonym rgba = "int \<times> int \<times> int \<times> int"

text \<open>
  A layer. The field \<open>name\<close> is called \<open>layer_name\<close> here and \<open>metadata\<close> is
  \<open>layer_metadata\<close>, the address of the layer's metadata dictionary.
\<close>

record Layer =
  layer_name :: string
  layer_id :: string
  visible :: bool
  locked :: bool
  opacity :: real
  blend_mode :: BlendMode
  parent_id :: "string option"
  layer_metadata :: addr

text \<open>
  The dictionary built by \<open>Layer.to_dict\<close>: a fresh dictionary with these eight keys.
  Its \<open>"metadata"\<close> entry is the layer's own dictionary object, not a copy.
\<close>

record LayerDict =
  ld_name :: string
  ld_layer_id :: string
  ld_visible :: bool
  ld_locked :: bool
  ld_opacity :: real
  ld_blend_mode :: string
  ld_parent_id :: "string option"
  ld_metadata :: addr

definition Layer_to_dict :: "Layer \<Rightarrow> LayerDict" where
  "Layer_to_dict self =
     \<lparr>ld_name = layer_name self, ld_layer_id = layer_id self, ld_visible = visible self,
      ld_locked = locked self, ld_opacity = opacity self,
      ld_blend_mode = blend_value (blend_mode self), ld_parent_id = parent_id self,
      ld_metadata = layer_metadata self\<rparr>"

text \<open>
  \<open>Layer.from_dict\<close>: copies the dictionary, replaces the blend mode text by the enum
  member and passes every entry to the constructor; the metadata entry is passed as it is.
\<close>

definition Layer_from_dict :: "LayerDict \<Rightarrow> error + Layer" where
  "Layer_from_dict d =
     (case BlendMode_of_value (ld_blend_mode d) of
        Inl e \<Rightarrow> Inl e
      | Inr b \<Rightarrow>
          Inr \<lparr>layer_name = ld_name d, layer_id = ld_layer_id d, visible = ld_visible d,
               locked = ld_locked d, opacity = ld_opacity d, blend_mode = b,
               parent_id = ld_parent_id d, layer_metadata = ld_metadata d\<rparr>)"

text \<open>A list comprehension over a constructor that can raise: the first failure wins.\<close>

fun map_result :: "('a \<Rightarrow> error + 'b) \<Rightarrow> 'a list \<Rightarrow> error + 'b list" where
  "map_result f [] = Inr []"
| "map_result f (x # xs) =
     (case f x of
        Inl e \<Rightarrow> Inl e
      | Inr y \<Rightarrow> (case map_result f xs of Inl e \<Rightarrow> Inl e | Inr ys \<Rightarrow> Inr (y # ys)))"

record Canvas =
  width :: int
  height :: int
  canvas_id :: string
  canvas_name :: string
  background_color :: rgba
  dpi :: int
  layers :: "Layer list"
  active_layer_id :: "string option"
  canvas_metadata :: addr

record CanvasDict =
  cd_width :: int
  cd_height :: int
  cd_canvas_id :: string
  cd_name :: string
  cd_background_color :: rgba
  cd_dpi :: int
  cd_layers :: "LayerDict list"
  cd_active_layer_id :: "string option"
  cd_metadata :: addr

text \<open>
  \<open>Canvas.to_dict\<close>: a fresh dictionary; the layer list is rebuilt from fresh layer
  dictionaries; \<open>"metadata": self.metadata\<close> stores the canvas's own dictionary object.
\<close>

definition Canvas_to_dict :: "Canvas \<Rightarrow> CanvasDict" where
  "Canvas_to_dict self =
     \<lparr>cd_width = width self, cd_height = height self, cd_canvas_id = canvas_id self,
      cd_name = canvas_name self, cd_background_color = background_color self,
      cd_dpi = dpi self, cd_layers = map Layer_to_dict (layers self),
      cd_active_layer_id = active_layer_id self, cd_metadata = canvas_metadata self\<rparr>"

text \<open>
  \<open>Canvas.__post_init__\<close>: a canvas constructed without layers gets a default layer
  \<open>Layer(name="Layer 1")\<close>, whose id is a fresh uuid (an input) and whose metadata is a new
  empty dictionary, and that layer becomes the active one.
\<close>

definition Canvas_post_init :: "heap \<Rightarrow> string \<Rightarrow> Canvas \<Rightarrow> Canvas \<times> heap" where
  "Canvas_post_init h uuid self =
     (if layers self = [] then
        (let (a, h1) = new_dict h;
             default_layer =
               \<lparr>layer_name = ''Layer 1'', layer_id = uuid, visible = True, locked = False,
                opacity = 1, blend_mode = NORMAL, parent_id = None, layer_metadata = a\<rparr>
         in (self\<lparr>layers := layers self @ [default_layer],
                   active_layer_id := Some (layer_id default_layer)\<rparr>, h1))
      else (self, h))"

text \<open>
  \<open>Canvas.from_dict\<close>: the layers are rebuilt with \<open>Layer.from_dict\<close>, everything else is
  passed to the constructor as it is, the metadata dictionary included.
\<close>

definition Canvas_from_dict :: "heap \<Rightarrow> string \<Rightarrow> CanvasDict \<Rightarrow> error + (Canvas \<times> heap)" where
  "Canvas_from_dict h uuid d =
     (case map_result Layer_from_dict (cd_layers d) of
        Inl e \<Rightarrow> Inl e
      | Inr ls \<Rightarrow>
          Inr (Canvas_post_init h uuid
                 \<lparr>width = cd_width d, height = cd_height d, canvas_id = cd_canvas_id d,
                  canvas_name = cd_name d, background_color = cd_background_color d,
                  dpi = cd_dpi d, layers = ls, active_layer_id = cd_active_layer_id d,
                  canvas_metadata = cd_metadata d\<rparr>))"

section \<open>Strokes (motor/core/stroke.py)\<close>

datatype StrokeType = DRAW | ERASE

fun stroke_type_value :: "StrokeType \<Rightarrow> string" where
  "stroke_type_value DRAW = ''draw''"
| "stroke_type_value ERASE = ''erase''"

definition StrokeType_of_value :: "string \<Rightarrow> error + StrokeType" where
  "StrokeType_of_value s =
     (if s = ''draw'' then Inr DRAW else if s = ''erase'' then Inr ERASE else Inl ValueError)"

text \<open>
  A stroke point, and (the same eight entries) the dictionary that \<open>Stroke.to_dict\<close>
  builds for it. The field \<open>timestamp\<close> is called \<open>point_timestamp\<close> here.
\<close>

record StrokePoint =
  x :: real
  y :: real
  pressure :: real
  tilt_x :: real
  tilt_y :: real
  rotation :: real
  point_timestamp :: real
  velocity :: real

record Stroke =
  points :: "StrokePoint list"
  stroke_type :: StrokeType
  tool_id :: "string option"
  stroke_layer_id :: "string option"
  color :: "rgba option"
  stroke_metadata :: addr

record StrokeDict =
  sd_points :: "StrokePoint list"
  sd_stroke_type :: string
  sd_tool_id :: "string option"
  sd_layer_id :: "string option"
  sd_color :: "rgba option"
  sd_metadata :: addr

text \<open>\<open>Stroke.to_dict\<close>; \<open>"metadata": self.metadata\<close> is the stroke's own dictionary object.\<close>

definition Stroke_to_dict :: "Stroke \<Rightarrow> StrokeDict" where
  "Stroke_to_dict self =
     \<lparr>sd_points = map (\<lambda>p. \<lparr>x = x p, y = y p, pressure = pressure p, tilt_x = tilt_x p,
                              tilt_y = tilt_y p, rotation = rotation p,
                              point_timestamp = point_timestamp p, velocity = velocity p\<rparr>)
                       (points self),
      sd_stroke_type = stroke_type_value (stroke_type self), sd_tool_id = tool_id self,
      sd_layer_id = stroke_layer_id self, sd_color = color self,
      sd_metadata = stroke_metadata self\<rparr>"

text \<open>
  \<open>Stroke.from_dict\<close>. A colour is a four-tuple, which is truthy, so
  \<open>tuple(data["color"]) if data.get("color") else None\<close> gives the colour back.
\<close>

definition Stroke_from_dict :: "StrokeDict \<Rightarrow> error + Stroke" where
  "Stroke_from_dict data =
     (case StrokeType_of_value (sd_stroke_type data) of
        Inl e \<Rightarrow> Inl e
      | Inr t \<Rightarrow>
          Inr \<lparr>points = map (\<lambda>p. \<lparr>x = x p, y = y p, pressure = pressure p, tilt_x = tilt_x p,
                                   tilt_y = tilt_y p, rotation = rotation p,
                                   point_timestamp = point_timestamp p, velocity = velocity p\<rparr>)
                            (sd_points data),
               stroke_type = t, tool_id = sd_tool_id data, stroke_layer_id = sd_layer_id data,
               color = sd_color data, stroke_metadata = sd_metadata data\<rparr>)"

section \<open>Stroke intents (workflow/models/stroke\_intent.py)\<close>

datatype StrokeIntent = GESTURE | CONTOUR | DETAIL | CONSTRUCTION | SHADING | CLEANUP

fun intent_value :: "StrokeIntent \<Rightarrow> string" where
  "intent_value GESTURE = ''gesture''"
| "intent_value CONTOUR = ''contour''"
| "intent_value DETAIL = ''detail''"
| "intent_value CONSTRUCTION = ''construction''"
| "intent_value SHADING = ''shading''"
| "intent_value CLEANUP = ''cleanup''"

record StrokeMetadata =
  sm_intent :: StrokeIntent
  sm_phase :: DrawingPhase
  sm_purpose :: string
  sm_task_id :: "string option"
  sm_action_id :: "string option"
  sm_confidence :: real
  sm_refinement_pass :: int
  sm_evaluation_score :: "real option"

definition py_opt_str :: "string option \<Rightarrow> pyval" where
  "py_opt_str v = (case v of None \<Rightarrow> PNone | Some s \<Rightarrow> PStr s)"

definition py_opt_float :: "real option \<Rightarrow> pyval" where
  "py_opt_float v = (case v of None \<Rightarrow> PNone | Some r \<Rightarrow> PFloat (Finite r))"

definition StrokeMetadata_to_dict :: "StrokeMetadata \<Rightarrow> pydict" where
  "StrokeMetadata_to_dict self =
     [(''intent'', PStr (intent_value (sm_intent self))),
      (''phase'', PStr (phase_value (sm_phase self))),
      (''purpose'', PStr (sm_purpose self)),
      (''task_id'', py_opt_str (sm_task_id self)),
      (''action_id'', py_opt_str (sm_action_id self)),
      (''confidence'', PFloat (Finite (sm_confidence self))),
      (''refinement_pass'', PInt (sm_refinement_pass self)),
      (''evaluation_score'', py_opt_float (sm_evaluation_score self))]"

definition PRIMARY_INTENT :: "DrawingPhase \<rightharpoonup> StrokeIntent" where
  "PRIMARY_INTENT =
     [SKETCH \<mapsto> GESTURE, REFINEMENT \<mapsto> CONTOUR, STYLIZATION \<mapsto> CONTOUR, RENDERING \<mapsto> DETAIL]"

definition get_primary_intent :: "DrawingPhase \<Rightarrow> StrokeIntent option" where
  "get_primary_intent phase = PRIMARY_INTENT phase"

section \<open>Checkpoints (workflow/core/checkpoint\_manager.py)\<close>

text \<open>
  The fields \<open>timestamp\<close>, \<open>phase\<close>, \<open>stroke_history\<close> and \<open>metadata\<close> of the dataclass
  carry the prefix \<open>cp_\<close> here. \<open>canvas_state\<close> and the entries of \<open>cp_stroke_history\<close>
  are the dictionaries built by \<open>to_dict\<close>, so they hold the addresses of the live
  metadata dictionaries.
\<close>

record CanvasCheckpoint =
  checkpoint_id :: string
  cp_timestamp :: datetime
  cp_phase :: DrawingPhase
  canvas_state :: CanvasDict
  cp_stroke_history :: "StrokeDict list"
  cp_metadata :: pydict
  description :: string

record CheckpointManager =
  checkpoints :: "CanvasCheckpoint list"
  max_checkpoints :: int
  current_checkpoint_index :: int

definition CheckpointManager_init :: "int \<Rightarrow> CheckpointManager" where
  "CheckpointManager_init mx = \<lparr>checkpoints = [], max_checkpoints = mx, current_checkpoint_index = -1\<rparr>"

text \<open>
  \<open>CheckpointManager.create_checkpoint\<close>. The id is \<open>"checkpoint_"\<close> followed by the text
  of the first clock reading's timestamp; that text is the input \<open>stamp\<close>. The second
  clock reading is \<open>now\<close>. Returns the new checkpoint and the updated manager.
\<close>

definition create_checkpoint ::
  "CheckpointManager \<Rightarrow> Canvas \<Rightarrow> DrawingPhase \<Rightarrow> Stroke list \<Rightarrow> string \<Rightarrow> pydict option
     \<Rightarrow> string \<Rightarrow> datetime \<Rightarrow> CanvasCheckpoint \<times> CheckpointManager" where
  "create_checkpoint self canvas phase stroke_history descr mdata stamp now =
     (let cid = ''checkpoint_'' @ stamp;
          canvas_st = Canvas_to_dict canvas;
          stroke_data = map Stroke_to_dict stroke_history;
          checkpoint =
            \<lparr>checkpoint_id = cid, cp_timestamp = now, cp_phase = phase,
             canvas_state = canvas_st, cp_stroke_history = stroke_data,
             cp_metadata = (case mdata of None \<Rightarrow> [] | Some m \<Rightarrow> m), description = descr\<rparr>;
          s1 = self\<lparr>checkpoints := checkpoints self @ [checkpoint]\<rparr>;
          s2 = s1\<lparr>current_checkpoint_index := int (length (checkpoints s1)) - 1\<rparr>;
          s3 = (if int (length (checkpoints s2)) > max_checkpoints s2
                then s2\<lparr>checkpoints := tl (checkpoints s2),
                        current_checkpoint_index := current_checkpoint_index s2 - 1\<rparr>
                else s2)
      in (checkpoint, s3))"

text \<open>\<open>get_checkpoint\<close>: the first stored checkpoint with the id, or \<open>None\<close>.\<close>

definition get_checkpoint :: "CheckpointManager \<Rightarrow> string \<Rightarrow> CanvasCheckpoint option" where
  "get_checkpoint self cid = find (\<lambda>cp. checkpoint_id cp = cid) (checkpoints self)"

definition get_checkpoints_by_phase :: "CheckpointManager \<Rightarrow> DrawingPhase \<Rightarrow> CanvasCheckpoint list" where
  "get_checkpoints_by_phase self phase = filter (\<lambda>cp. cp_phase cp = phase) (checkpoints self)"

definition get_checkpoint_count :: "CheckpointManager \<Rightarrow> int" where
  "get_checkpoint_count self = int (length (checkpoints self))"

text \<open>\<open>restore_checkpoint\<close>: \<open>Canvas.from_dict(checkpoint.canvas_state)\<close>.\<close>

definition restore_checkpoint :: "heap \<Rightarrow> string \<Rightarrow> CanvasCheckpoint \<Rightarrow> error + (Canvas \<times> heap)" where
  "restore_checkpoint h uuid checkpoint = Canvas_from_dict h uuid (canvas_state checkpoint)"

text \<open>
  \<open>CheckpointManager.rollback_to_checkpoint\<close>: the first checkpoint with the id, found by
  \<open>enumerate\<close>; its position is stored in \<open>current_checkpoint_index\<close>. The list of
  checkpoints is not touched.
\<close>

definition CheckpointManager_rollback_to_checkpoint ::
  "CheckpointManager \<Rightarrow> string \<Rightarrow> CanvasCheckpoint option \<times> CheckpointManager" where
  "CheckpointManager_rollback_to_checkpoint self cid =
     (case find (\<lambda>(i, cp). checkpoint_id cp = cid) (enumerate 0 (checkpoints self)) of
        None \<Rightarrow> (None, self)
      | Some (i, cp) \<Rightarrow> (Some cp, self\<lparr>current_checkpoint_index := int i\<rparr>))"

definition CheckpointManager_rollback_to_phase ::
  "CheckpointManager \<Rightarrow> DrawingPhase \<Rightarrow> CanvasCheckpoint option \<times> CheckpointManager" where
  "CheckpointManager_rollback_to_phase self phase =
     (let phase_checkpoints = get_checkpoints_by_phase self phase
      in if phase_checkpoints \<noteq> []
         then CheckpointManager_rollback_to_checkpoint self (checkpoint_id (last phase_checkpoints))
         else (None, self))"

definition get_stroke_history_at_checkpoint :: "CanvasCheckpoint \<Rightarrow> error + Stroke list" where
  "get_stroke_history_at_checkpoint checkpoint =
     map_result Stroke_from_dict (cp_stroke_history checkpoint)"

section \<open>Decision log (workflow/core/decision\_logger.py)\<close>

text \<open>
  The fields \<open>timestamp\<close>, \<open>intent\<close>, \<open>phase\<close>, \<open>task_id\<close>, \<open>action_id\<close>, \<open>purpose\<close> and
  \<open>metadata\<close> of \<open>StrokeDecision\<close> carry the prefix \<open>dec_\<close> here.
\<close>

record StrokeDecision =
  stroke_id :: string
  dec_timestamp :: datetime
  dec_intent :: StrokeIntent
  dec_phase :: DrawingPhase
  dec_task_id :: "string option"
  dec_action_id :: "string option"
  dec_purpose :: string
  pre_evaluation :: "metrics option"
  post_evaluation :: "metrics option"
  stroke_data :: "StrokeDict option"
  dec_metadata :: pydict

text \<open>
  \<open>self.pre_evaluation and self.post_evaluation\<close>: both present and non-empty. The two
  averages and their difference are computed by the runtime's float arithmetic \<open>fa\<close>.
\<close>

definition get_improvement_score :: "float_arith \<Rightarrow> StrokeDecision \<Rightarrow> pyfloat option" where
  "get_improvement_score fa self =
     (case pre_evaluation self of
        None \<Rightarrow> None
      | Some pre \<Rightarrow>
          (case post_evaluation self of
             None \<Rightarrow> None
           | Some post \<Rightarrow>
               if pre \<noteq> [] \<and> post \<noteq> []
               then Some (float_sub fa (py_mean fa (map snd post)) (py_mean fa (map snd pre)))
               else None))"

record PhaseDecisionLog =
  log_phase :: DrawingPhase
  start_time :: datetime
  end_time :: "datetime option"
  strokes :: "StrokeDecision list"
  phase_evaluations :: "(datetime \<times> metrics) list"
  transition_reason :: string
  total_improvement :: "pyfloat option"
  log_metadata :: pydict

definition add_stroke_decision :: "StrokeDecision \<Rightarrow> PhaseDecisionLog \<Rightarrow> PhaseDecisionLog" where
  "add_stroke_decision decision self = self\<lparr>strokes := strokes self @ [decision]\<rparr>"

definition add_evaluation :: "metrics \<Rightarrow> datetime \<Rightarrow> PhaseDecisionLog \<Rightarrow> PhaseDecisionLog" where
  "add_evaluation evaluation now self =
     self\<lparr>phase_evaluations := phase_evaluations self @ [(now, evaluation)]\<rparr>"

definition PhaseDecisionLog_close_phase ::
  "float_arith \<Rightarrow> string \<Rightarrow> datetime \<Rightarrow> PhaseDecisionLog \<Rightarrow> PhaseDecisionLog" where
  "PhaseDecisionLog_close_phase fa rsn now self =
     (let s1 = self\<lparr>end_time := Some now\<rparr>;
          s2 = s1\<lparr>transition_reason := rsn\<rparr>
      in if strokes s2 \<noteq> [] then
           (let improvements = List.map_filter (get_improvement_score fa) (strokes s2)
            in if improvements \<noteq> []
               then s2\<lparr>total_improvement := Some (py_mean fa improvements)\<rparr>
               else s2)
         else s2)"

definition get_stroke_count :: "PhaseDecisionLog \<Rightarrow> int" where
  "get_stroke_count self = int (length (strokes self))"

text \<open>
  \<open>current_log\<close> refers to one of the log objects held in \<open>phase_logs\<close>; the model keeps
  its position in that list. \<open>on_current_log f\<close> is a method call on that object.
\<close>

record DecisionLogger =
  phase_logs :: "PhaseDecisionLog list"
  current_log :: "nat option"

definition DecisionLogger_init :: DecisionLogger where
  "DecisionLogger_init = \<lparr>phase_logs = [], current_log = None\<rparr>"

definition on_current_log :: "(PhaseDecisionLog \<Rightarrow> PhaseDecisionLog) \<Rightarrow> DecisionLogger \<Rightarrow> DecisionLogger" where
  "on_current_log f self =
     (case current_log self of
        None \<Rightarrow> self
      | Some i \<Rightarrow> self\<lparr>phase_logs := (phase_logs self)[i := f (phase_logs self ! i)]\<rparr>)"

text \<open>
  \<open>start_phase\<close>: closes the current log if it is still open (clock reading
  \<open>now_prev\<close>), then appends a new log (clock reading \<open>now\<close>) and makes it current.
\<close>

definition start_phase ::
  "float_arith \<Rightarrow> DrawingPhase \<Rightarrow> pydict option \<Rightarrow> datetime \<Rightarrow> datetime \<Rightarrow> DecisionLogger
     \<Rightarrow> DecisionLogger" where
  "start_phase fa phase mdata now_prev now self =
     (let s1 = (case current_log self of
                  None \<Rightarrow> self
                | Some i \<Rightarrow>
                    if end_time (phase_logs self ! i) = None
                    then on_current_log (PhaseDecisionLog_close_phase fa ''Phase transition'' now_prev) self
                    else self);
          new_log =
            \<lparr>log_phase = phase, start_time = now, end_time = None, strokes = [],
             phase_evaluations = [], transition_reason = [], total_improvement = None,
             log_metadata = (case mdata of None \<Rightarrow> [] | Some m \<Rightarrow> m)\<rparr>
      in s1\<lparr>current_log := Some (length (phase_logs s1)),
            phase_logs := phase_logs s1 @ [new_log]\<rparr>)"

definition log_stroke ::
  "float_arith \<Rightarrow> string \<Rightarrow> StrokeIntent \<Rightarrow> DrawingPhase \<Rightarrow> string \<Rightarrow> string option \<Rightarrow> string option
     \<Rightarrow> metrics option \<Rightarrow> metrics option \<Rightarrow> StrokeDict option \<Rightarrow> pydict option
     \<Rightarrow> datetime \<Rightarrow> datetime \<Rightarrow> datetime \<Rightarrow> DecisionLogger \<Rightarrow> DecisionLogger" where
  "log_stroke fa sid intent phase purpose task_id action_id pre post sdata mdata now_prev now_st now self =
     (let s1 = (if current_log self = None then start_phase fa phase None now_prev now_st self else self);
          decision =
            \<lparr>stroke_id = sid, dec_timestamp = now, dec_intent = intent, dec_phase = phase,
             dec_task_id = task_id, dec_action_id = action_id, dec_purpose = purpose,
             pre_evaluation = pre, post_evaluation = post, stroke_data = sdata,
             dec_metadata = (case mdata of None \<Rightarrow> [] | Some m \<Rightarrow> m)\<rparr>
      in on_current_log (add_stroke_decision decision) s1)"

definition log_evaluation :: "metrics \<Rightarrow> datetime \<Rightarrow> DecisionLogger \<Rightarrow> DecisionLogger" where
  "log_evaluation evaluation now self = on_current_log (add_evaluation evaluation now) self"

definition close_phase :: "float_arith \<Rightarrow> string \<Rightarrow> datetime \<Rightarrow> DecisionLogger \<Rightarrow> DecisionLogger" where
  "close_phase fa rsn now self = on_current_log (PhaseDecisionLog_close_phase fa rsn now) self"

definition get_total_stroke_count :: "DecisionLogger \<Rightarrow> int" where
  "get_total_stroke_count self = sum_list (map get_stroke_count (phase_logs self))"

section \<open>Workflow executor (workflow/core/workflow\_executor.py)\<close>

text \<open>
  What one call of an executor method takes from outside the program: the clock readings
  of its \<open>datetime.now()\<close> call sites, the texts of the timestamps used in generated ids,
  a fresh uuid, and the float arithmetic of the runtime.
\<close>

record env =
  now_transition :: datetime
  now_phase_start :: datetime
  now_close :: datetime
  now_close_previous :: datetime
  now_start :: datetime
  now_decision :: datetime
  now_evaluation :: datetime
  now_checkpoint :: datetime
  stamp :: string
  workflow_stamp :: string
  uuid :: string
  floats :: float_arith

record WorkflowExecutor =
  canvas :: Canvas
  workflow_state :: WorkflowState
  checkpoint_manager :: CheckpointManager
  decision_logger :: "DecisionLogger option"
  stroke_history :: "Stroke list"

text \<open>\<open>WorkflowExecutor.create_checkpoint\<close>: returns the id of the new checkpoint.\<close>

definition WorkflowExecutor_create_checkpoint ::
  "WorkflowExecutor \<Rightarrow> string \<Rightarrow> pydict option \<Rightarrow> env \<Rightarrow> string \<times> WorkflowExecutor" where
  "WorkflowExecutor_create_checkpoint self descr mdata ev =
     (let (checkpoint, cm) =
            create_checkpoint (checkpoint_manager self) (canvas self)
              (current_phase (workflow_state self)) (stroke_history self) descr mdata
              (stamp ev) (now_checkpoint ev)
      in (checkpoint_id checkpoint, self\<lparr>checkpoint_manager := cm\<rparr>))"

text \<open>The constructor followed by \<open>_initialize_workflow\<close>.\<close>

definition WorkflowExecutor_init :: "Canvas \<Rightarrow> int \<Rightarrow> bool \<Rightarrow> env \<Rightarrow> WorkflowExecutor" where
  "WorkflowExecutor_init cv mx enable_logging ev =
     (let self =
            \<lparr>canvas = cv,
             workflow_state = WorkflowState_init (now_phase_start ev) (''workflow_'' @ workflow_stamp ev),
             checkpoint_manager = CheckpointManager_init mx,
             decision_logger = (if enable_logging then Some DecisionLogger_init else None),
             stroke_history = []\<rparr>;
          s1 = self\<lparr>workflow_state := (workflow_state self)\<lparr>current_phase := SKETCH\<rparr>\<rparr>;
          s2 = (case decision_logger s1 of
                  None \<Rightarrow> s1
                | Some lg \<Rightarrow>
                    s1\<lparr>decision_logger :=
                         Some (start_phase (floats ev) SKETCH None (now_close_previous ev) (now_start ev) lg)\<rparr>)
      in snd (WorkflowExecutor_create_checkpoint s2 ''Initial canvas state''
                (Some [(''type'', PStr ''initial'')]) ev))"

definition metrics_pyval :: "metrics \<Rightarrow> pyval" where
  "metrics_pyval m = PDict (map (\<lambda>(k, v). (k, PFloat v)) m)"

text \<open>
  \<open>WorkflowExecutor.transition_to_phase\<close>. The workflow state is asked first (with the
  default confidence 1.0); on refusal nothing else happens.
\<close>

definition WorkflowExecutor_transition_to_phase ::
  "WorkflowExecutor \<Rightarrow> DrawingPhase \<Rightarrow> string \<Rightarrow> metrics option \<Rightarrow> bool \<Rightarrow> env
     \<Rightarrow> bool \<times> WorkflowExecutor" where
  "WorkflowExecutor_transition_to_phase self new_phase rsn mtr make_checkpoint ev =
     (let (success, ws) =
            WorkflowState_transition_to_phase (workflow_state self) new_phase rsn mtr 1
              (now_transition ev) (now_phase_start ev);
          s1 = self\<lparr>workflow_state := ws\<rparr>
      in if \<not> success then (False, s1)
         else
           (let s2 = (case decision_logger s1 of
                        None \<Rightarrow> s1
                      | Some lg \<Rightarrow>
                          s1\<lparr>decision_logger :=
                               Some (start_phase (floats ev) new_phase None (now_close_previous ev)
                                       (now_start ev) (close_phase (floats ev) rsn (now_close ev) lg))\<rparr>);
                s3 = (if make_checkpoint
                      then snd (WorkflowExecutor_create_checkpoint s2
                                  (''Phase transition to '' @ phase_value new_phase)
                                  (Some [(''type'', PStr ''phase_transition''),
                                         (''reason'', PStr rsn),
                                         (''metrics'', metrics_pyval (case mtr of None \<Rightarrow> [] | Some m \<Rightarrow> m))])
                                  ev)
                      else s2)
            in (True, s3)))"

text \<open>
  \<open>WorkflowExecutor.execute_stroke\<close>. \<open>stroke.metadata.update(...)\<close> writes into the
  stroke's metadata dictionary object; the stroke itself is appended to the history.
\<close>

definition execute_stroke ::
  "heap \<Rightarrow> WorkflowExecutor \<Rightarrow> Stroke \<Rightarrow> StrokeIntent option \<Rightarrow> string \<Rightarrow> string option
     \<Rightarrow> string option \<Rightarrow> metrics option \<Rightarrow> metrics option \<Rightarrow> env
     \<Rightarrow> string \<times> heap \<times> WorkflowExecutor" where
  "execute_stroke h self stroke intent_opt purpose task_id action_id pre post ev =
     (let intent = (case intent_opt of
                      Some i \<Rightarrow> i
                    | None \<Rightarrow>
                        (case get_primary_intent (current_phase (workflow_state self)) of
                           Some i \<Rightarrow> i
                         | None \<Rightarrow> GESTURE));
          sid = uuid ev;
          workflow_metadata =
            \<lparr>sm_intent = intent, sm_phase = current_phase (workflow_state self),
             sm_purpose = purpose, sm_task_id = task_id, sm_action_id = action_id,
             sm_confidence = 1, sm_refinement_pass = iteration_in_phase (workflow_state self),
             sm_evaluation_score = None\<rparr>;
          h1 = dict_update h (stroke_metadata stroke)
                 [(''workflow'', PDict (StrokeMetadata_to_dict workflow_metadata)),
                  (''stroke_id'', PStr sid)];
          s1 = self\<lparr>stroke_history := stroke_history self @ [stroke]\<rparr>;
          s2 = s1\<lparr>workflow_state := record_stroke (workflow_state s1)\<rparr>;
          s3 = (case decision_logger s2 of
                  None \<Rightarrow> s2
                | Some lg \<Rightarrow>
                    s2\<lparr>decision_logger :=
                         Some (log_stroke (floats ev) sid intent (current_phase (workflow_state s2)) purpose
                                 task_id action_id pre post (Some (Stroke_to_dict stroke)) None
                                 (now_close_previous ev) (now_start ev) (now_decision ev) lg)\<rparr>)
      in (sid, h1, s3))"

text \<open>
  \<open>WorkflowExecutor.rollback_to_checkpoint\<close>. An exception raised while the checkpoint is
  deserialised is the result \<open>Inl\<close>.
\<close>

definition WorkflowExecutor_rollback_to_checkpoint ::
  "heap \<Rightarrow> WorkflowExecutor \<Rightarrow> string \<Rightarrow> env \<Rightarrow> error + (bool \<times> heap \<times> WorkflowExecutor)" where
  "WorkflowExecutor_rollback_to_checkpoint h self cid ev =
     (let (found, cm) = CheckpointManager_rollback_to_checkpoint (checkpoint_manager self) cid;
          s1 = self\<lparr>checkpoint_manager := cm\<rparr>
      in case found of
           None \<Rightarrow> Inr (False, h, s1)
         | Some checkpoint \<Rightarrow>
             (case restore_checkpoint h (uuid ev) checkpoint of
                Inl e \<Rightarrow> Inl e
              | Inr (cv, h1) \<Rightarrow>
                  (case get_stroke_history_at_checkpoint checkpoint of
                     Inl e \<Rightarrow> Inl e
                   | Inr sh \<Rightarrow>
                       (let s2 = s1\<lparr>canvas := cv\<rparr>;
                            s3 = s2\<lparr>stroke_history := sh\<rparr>;
                            ws1 = (workflow_state s3)\<lparr>current_phase := cp_phase checkpoint\<rparr>;
                            ws2 = ws1\<lparr>phase_start_time := cp_timestamp checkpoint\<rparr>;
                            ws3 = ws2\<lparr>total_strokes := int (length (stroke_history s3))\<rparr>
                        in Inr (True, h1, s3\<lparr>workflow_state := ws3\<rparr>)))))"

definition WorkflowExecutor_rollback_to_phase ::
  "heap \<Rightarrow> WorkflowExecutor \<Rightarrow> DrawingPhase \<Rightarrow> env \<Rightarrow> error + (bool \<times> heap \<times> WorkflowExecutor)" where
  "WorkflowExecutor_rollback_to_phase h self phase ev =
     (let (found, cm) = CheckpointManager_rollback_to_phase (checkpoint_manager self) phase;
          s1 = self\<lparr>checkpoint_manager := cm\<rparr>
      in case found of
           Some checkpoint \<Rightarrow> WorkflowExecutor_rollback_to_checkpoint h s1 (checkpoint_id checkpoint) ev
         | None \<Rightarrow> Inr (False, h, s1))"

text \<open>
  \<open>WorkflowExecutor.evaluate_and_decide_transition\<close>: the evaluation is logged, then the
  phase is suggested from the average of the metric values, which the runtime computes
  as \<open>sum(evaluation_metrics.values()) / len(evaluation_metrics)\<close>; the comparisons are
  comparisons of doubles, with the threshold and with the double written \<open>0.4\<close>.
\<close>

definition evaluate_and_decide_transition ::
  "WorkflowExecutor \<Rightarrow> metrics \<Rightarrow> pyfloat \<Rightarrow> env \<Rightarrow> DrawingPhase option \<times> WorkflowExecutor" where
  "evaluate_and_decide_transition self evaluation_metrics quality_threshold ev =
     (let cur = current_phase (workflow_state self);
          s1 = (case decision_logger self of
                  None \<Rightarrow> self
                | Some lg \<Rightarrow>
                    self\<lparr>decision_logger := Some (log_evaluation evaluation_metrics (now_evaluation ev) lg)\<rparr>)
      in if evaluation_metrics = [] then (None, s1)
         else
           (let avg_quality = py_mean (floats ev) (map snd evaluation_metrics)
            in if float_le quality_threshold avg_quality then
                 (if cur = SKETCH then (Some REFINEMENT, s1)
                  else if cur = REFINEMENT then (Some STYLIZATION, s1)
                  else if cur = STYLIZATION then (Some RENDERING, s1)
                  else if cur = RENDERING then (Some COMPLETE, s1)
                  else (None, s1))
               else if float_lt avg_quality literal_0_4 \<and> iteration_in_phase (workflow_state s1) > 2 then
                 (if cur = RENDERING then (Some STYLIZATION, s1)
                  else if cur = STYLIZATION then (Some REFINEMENT, s1)
                  else if cur = REFINEMENT then (Some SKETCH, s1)
                  else (None, s1))
               else (None, s1)))"

text \<open>
  \<open>WorkflowExecutor.get_phase_stroke_count\<close>: a scan of the stroke history.
  \<open>stroke.metadata.get("workflow", {})\<close> must be a dictionary for \<open>.get("phase")\<close> to
  work; any other value has no \<open>get\<close> and raises \<open>AttributeError\<close>.
\<close>

fun count_phase_strokes :: "heap \<Rightarrow> string \<Rightarrow> Stroke list \<Rightarrow> int \<Rightarrow> error + int" where
  "count_phase_strokes h v [] count = Inr count"
| "count_phase_strokes h v (stroke # rest) count =
     (case (case map_of (cells h (stroke_metadata stroke)) ''workflow'' of
              None \<Rightarrow> PDict []
            | Some w \<Rightarrow> w) of
        PDict workflow_meta \<Rightarrow>
          count_phase_strokes h v rest
            (if map_of workflow_meta ''phase'' = Some (PStr v) then count + 1 else count)
      | _ \<Rightarrow> Inl AttributeError)"

definition get_phase_stroke_count :: "heap \<Rightarrow> WorkflowExecutor \<Rightarrow> DrawingPhase \<Rightarrow> error + int" where
  "get_phase_stroke_count h self phase =
     count_phase_strokes h (phase_value phase) (stroke_history self) 0"

section \<open>Sequences of executor calls\<close>

text \<open>
  A call of one of the executor's public methods with its arguments, and what it returns.
  The state of the program is the memory together with the executor object.
\<close>

datatype call =
    ExecuteStroke Stroke "StrokeIntent option" string "string option" "string option"
      "metrics option" "metrics option"
  | TransitionToPhase DrawingPhase string "metrics option" bool
  | CreateCheckpoint string "pydict option"
  | RollbackToCheckpoint string
  | RollbackToPhase DrawingPhase
  | EvaluateAndDecide metrics pyfloat

datatype outcome =
    StrokeId string
  | Accepted bool
  | CheckpointId string
  | RolledBack bool
  | Suggested "DrawingPhase option"

fun step :: "env \<Rightarrow> call \<Rightarrow> heap \<times> WorkflowExecutor \<Rightarrow> error + (outcome \<times> heap \<times> WorkflowExecutor)" where
  "step ev (ExecuteStroke stroke intent purpose task_id action_id pre post) (h, e) =
     (let (sid, h1, e1) = execute_stroke h e stroke intent purpose task_id action_id pre post ev
      in Inr (StrokeId sid, h1, e1))"
| "step ev (TransitionToPhase new_phase rsn mtr make_checkpoint) (h, e) =
     (let (ok, e1) = WorkflowExecutor_transition_to_phase e new_phase rsn mtr make_checkpoint ev
      in Inr (Accepted ok, h, e1))"
| "step ev (CreateCheckpoint descr mdata) (h, e) =
     (let (cid, e1) = WorkflowExecutor_create_checkpoint e descr mdata ev
      in Inr (CheckpointId cid, h, e1))"
| "step ev (RollbackToCheckpoint cid) (h, e) =
     (case WorkflowExecutor_rollback_to_checkpoint h e cid ev of
        Inl err \<Rightarrow> Inl err
      | Inr (ok, h1, e1) \<Rightarrow> Inr (RolledBack ok, h1, e1))"
| "step ev (RollbackToPhase phase) (h, e) =
     (case WorkflowExecutor_rollback_to_phase h e phase ev of
        Inl err \<Rightarrow> Inl err
      | Inr (ok, h1, e1) \<Rightarrow> Inr (RolledBack ok, h1, e1))"
| "step ev (EvaluateAndDecide mtr threshold) (h, e) =
     (let (suggestion, e1) = evaluate_and_decide_transition e mtr threshold ev
      in Inr (Suggested suggestion, h, e1))"

text \<open>Calls made one after the other, each with its own environment; an exception ends the run.\<close>

fun run :: "(env \<times> call) list \<Rightarrow> heap \<times> WorkflowExecutor \<Rightarrow> error + (heap \<times> WorkflowExecutor)" where
  "run [] s = Inr s"
| "run ((ev, c) # rest) s =
     (case step ev c s of
        Inl err \<Rightarrow> Inl err
      | Inr (out, s1) \<Rightarrow> run rest s1)"

section \<open>Definitions used to state the claims\<close>

text \<open>
  The fixed order of the phases as the specification words it for claim C7: the next and
  the previous phase. \<open>claimed_suggestion\<close> is the recommendation as the claim states it.
\<close>

fun next_in_order :: "DrawingPhase \<Rightarrow> DrawingPhase option" where
  "next_in_order SKETCH = Some REFINEMENT"
| "next_in_order REFINEMENT = Some STYLIZATION"
| "next_in_order STYLIZATION = Some RENDERING"
| "next_in_order RENDERING = Some COMPLETE"
| "next_in_order COMPLETE = None"

fun previous_in_order :: "DrawingPhase \<Rightarrow> DrawingPhase option" where
  "previous_in_order SKETCH = None"
| "previous_in_order REFINEMENT = Some SKETCH"
| "previous_in_order STYLIZATION = Some REFINEMENT"
| "previous_in_order RENDERING = Some STYLIZATION"
| "previous_in_order COMPLETE = Some RENDERING"

definition claimed_suggestion ::
  "float_arith \<Rightarrow> DrawingPhase \<Rightarrow> metrics \<Rightarrow> pyfloat \<Rightarrow> int \<Rightarrow> DrawingPhase option" where
  "claimed_suggestion fa cur m threshold iteration =
     (if m = [] then None
      else if float_le threshold (py_mean fa (map snd m)) then next_in_order cur
      else if float_lt (py_mean fa (map snd m)) literal_0_4 \<and> iteration > 2 then previous_in_order cur
      else None)"

text \<open>
  The regression targets that the code has: one step back from Refinement, Stylization
  and Rendering, none from Sketch and none from Complete.
\<close>

fun regression_target :: "DrawingPhase \<Rightarrow> DrawingPhase option" where
  "regression_target SKETCH = None"
| "regression_target REFINEMENT = Some SKETCH"
| "regression_target STYLIZATION = Some REFINEMENT"
| "regression_target RENDERING = Some STYLIZATION"
| "regression_target COMPLETE = None"

definition decided_suggestion ::
  "float_arith \<Rightarrow> DrawingPhase \<Rightarrow> metrics \<Rightarrow> pyfloat \<Rightarrow> int \<Rightarrow> DrawingPhase option" where
  "decided_suggestion fa cur m threshold iteration =
     (if m = [] then None
      else if float_le threshold (py_mean fa (map snd m)) then next_in_order cur
      else if float_lt (py_mean fa (map snd m)) literal_0_4 \<and> iteration > 2 then regression_target cur
      else None)"

text \<open>
  The doubles that the literals \<open>0.2\<close>, \<open>0.55\<close>, \<open>0.7\<close> and \<open>0.8\<close> denote.
\<close>

definition literal_0_2 :: pyfloat where
  "literal_0_2 = Finite (3602879701896397 / 18014398509481984)"

definition literal_0_55 :: pyfloat where
  "literal_0_55 = Finite (2476979795053773 / 4503599627370496)"

definition literal_0_7 :: pyfloat where
  "literal_0_7 = Finite (3152519739159347 / 4503599627370496)"

definition literal_0_8 :: pyfloat where
  "literal_0_8 = Finite (3602879701896397 / 4503599627370496)"

text \<open>
  An arithmetic that does not round, for the concrete examples. For a list of one float
  it gives that float as the mean, as the runtime's double arithmetic does (there
  \<open>0 + v\<close> and \<open>v / 1\<close> are exact).
\<close>

fun exact_add :: "pyfloat \<Rightarrow> pyfloat \<Rightarrow> pyfloat" where
  "exact_add NaN b = NaN"
| "exact_add a NaN = NaN"
| "exact_add PosInf NegInf = NaN"
| "exact_add NegInf PosInf = NaN"
| "exact_add PosInf b = PosInf"
| "exact_add a PosInf = PosInf"
| "exact_add NegInf b = NegInf"
| "exact_add a NegInf = NegInf"
| "exact_add (Finite v) (Finite w) = Finite (v + w)"

fun exact_neg :: "pyfloat \<Rightarrow> pyfloat" where
  "exact_neg (Finite v) = Finite (- v)"
| "exact_neg PosInf = NegInf"
| "exact_neg NegInf = PosInf"
| "exact_neg NaN = NaN"

fun exact_div :: "pyfloat \<Rightarrow> nat \<Rightarrow> pyfloat" where
  "exact_div (Finite v) n = Finite (v / real n)"
| "exact_div a n = a"

definition exact_arith :: float_arith where
  "exact_arith =
     \<lparr>float_sum = foldl exact_add (Finite 0), float_div = exact_div,
      float_sub = (\<lambda>a b. exact_add a (exact_neg b))\<rparr>"

text \<open>
  Concrete inputs for the examples: a memory whose dictionaries are all empty, a canvas
  as \<open>Canvas(width=800, height=600)\<close> builds it, an environment per call, and an executor
  constructed on them.
\<close>

definition example_heap :: heap where
  "example_heap = \<lparr>cells = (\<lambda>a. []), next_addr = 10\<rparr>"

definition example_canvas :: Canvas where
  "example_canvas =
     \<lparr>width = 800, height = 600, canvas_id = ''canvas-1'', canvas_name = ''Untitled'',
      background_color = (255, 255, 255, 255), dpi = 300,
      layers = [\<lparr>layer_name = ''Layer 1'', layer_id = ''layer-1'', visible = True,
                 locked = False, opacity = 1, blend_mode = NORMAL, parent_id = None,
                 layer_metadata = 1\<rparr>],
      active_layer_id = Some ''layer-1'', canvas_metadata = 0\<rparr>"

definition example_env :: "nat \<Rightarrow> string \<Rightarrow> env" where
  "example_env n t =
     \<lparr>now_transition = n, now_phase_start = n, now_close = n, now_close_previous = n,
      now_start = n, now_decision = n, now_evaluation = n, now_checkpoint = n,
      stamp = t, workflow_stamp = ''0'', uuid = ''uuid-'' @ t, floats = exact_arith\<rparr>"

definition example_executor :: WorkflowExecutor where
  "example_executor = WorkflowExecutor_init example_canvas 10 True (example_env 0 ''0'')"

text \<open>Runs that reach Complete, and Rendering, and iterate three times there.\<close>

definition complete_calls :: "(env \<times> call) list" where
  "complete_calls =
     [(example_env 1 ''1'', TransitionToPhase REFINEMENT [] None False),
      (example_env 2 ''2'', TransitionToPhase STYLIZATION [] None False),
      (example_env 3 ''3'', TransitionToPhase RENDERING [] None False),
      (example_env 4 ''4'', TransitionToPhase COMPLETE [] None False),
      (example_env 5 ''5'', TransitionToPhase COMPLETE [] None False),
      (example_env 6 ''6'', TransitionToPhase COMPLETE [] None False),
      (example_env 7 ''7'', TransitionToPhase COMPLETE [] None False)]"

definition rendering_calls :: "(env \<times> call) list" where
  "rendering_calls =
     [(example_env 1 ''1'', TransitionToPhase REFINEMENT [] None False),
      (example_env 2 ''2'', TransitionToPhase STYLIZATION [] None False),
      (example_env 3 ''3'', TransitionToPhase RENDERING [] None False),
      (example_env 4 ''4'', TransitionToPhase RENDERING [] None False),
      (example_env 5 ''5'', TransitionToPhase RENDERING [] None False),
      (example_env 6 ''6'', TransitionToPhase RENDERING [] None False)]"

text \<open>
  For claim C6: a series of \<open>create_checkpoint\<close> calls on one manager, each with its own
  arguments and clock readings; the result is the list of the checkpoints created, in
  creation order, and the manager after the last call.
\<close>

type_synonym checkpoint_request =
  "Canvas \<times> DrawingPhase \<times> Stroke list \<times> string \<times> pydict option \<times> string \<times> datetime"

definition request_stamp :: "checkpoint_request \<Rightarrow> string" where
  "request_stamp r = (case r of (cv, ph, ss, d, md, st, now) \<Rightarrow> st)"

fun create_checkpoints ::
  "CheckpointManager \<Rightarrow> checkpoint_request list \<Rightarrow> CanvasCheckpoint list \<times> CheckpointManager" where
  "create_checkpoints cm [] = ([], cm)"
| "create_checkpoints cm ((cv, ph, ss, d, md, st, now) # rest) =
     (let (cp, cm1) = create_checkpoint cm cv ph ss d md st now;
          (cps, cm2) = create_checkpoints cm1 rest
      in (cp # cps, cm2))"

definition example_requests :: "checkpoint_request list" where
  "example_requests =
     [(example_canvas, SKETCH, [], ''first'', None, ''1'', 1),
      (example_canvas, SKETCH, [], ''second'', None, ''2'', 2),
      (example_canvas, SKETCH, [], ''third'', None, ''3'', 3),
      (example_canvas, SKETCH, [], ''fourth'', None, ''4'', 4)]"

text \<open>
  A scenario for the rollback claims: one stroke is executed on the example executor, a
  checkpoint is created, and two more strokes are executed. Each stroke has its own
  metadata dictionary.
\<close>

definition example_stroke :: "addr \<Rightarrow> Stroke" where
  "example_stroke a =
     \<lparr>points = [\<lparr>x = 0, y = 0, pressure = 1, tilt_x = 0, tilt_y = 0, rotation = 0,
                  point_timestamp = 0, velocity = 0\<rparr>],
      stroke_type = DRAW, tool_id = None, stroke_layer_id = None, color = None,
      stroke_metadata = a\<rparr>"

definition one_stroke_calls :: "(env \<times> call) list" where
  "one_stroke_calls = [(example_env 1 ''1'', ExecuteStroke (example_stroke 2) None [] None None None None)]"

definition rollback_calls :: "(env \<times> call) list" where
  "rollback_calls =
     [(example_env 2 ''2'', CreateCheckpoint ''after stroke 1'' None),
      (example_env 3 ''3'', ExecuteStroke (example_stroke 3) None [] None None None None),
      (example_env 4 ''4'', ExecuteStroke (example_stroke 4) None [] None None None None)]"

definition one_stroke_state :: "heap \<times> WorkflowExecutor" where
  "one_stroke_state = projr (run one_stroke_calls (example_heap, example_executor))"

definition rollback_state :: "heap \<times> WorkflowExecutor" where
  "rollback_state = projr (run rollback_calls one_stroke_state)"

text \<open>
  For claim C4: a checkpoint of the example canvas and one stroke; the memory after the
  live objects are mutated by \<open>canvas.metadata["note"] = "changed"\<close> and
  \<open>stroke.metadata["note"] = "changed"\<close>; and a canvas whose only layer has been removed
  (\<open>remove_layer\<close> leaves \<open>layers == []\<close> and \<open>active_layer_id is None\<close>), with a
  checkpoint of it.
\<close>

definition snapshot_checkpoint :: CanvasCheckpoint where
  "snapshot_checkpoint =
     fst (create_checkpoint (CheckpointManager_init 10) example_canvas SKETCH [example_stroke 2]
            ''snapshot'' None ''1'' 1)"

definition mutated_heap :: heap where
  "mutated_heap =
     dict_setitem
       (dict_setitem example_heap (canvas_metadata example_canvas) ''note'' (PStr ''changed''))
       (stroke_metadata (example_stroke 2)) ''note'' (PStr ''changed'')"

definition empty_canvas :: Canvas where
  "empty_canvas = example_canvas\<lparr>layers := [], active_layer_id := None\<rparr>"

definition empty_canvas_checkpoint :: CanvasCheckpoint where
  "empty_canvas_checkpoint =
     fst (create_checkpoint (CheckpointManager_init 10) empty_canvas SKETCH []
            ''no layers'' None ''1'' 1)"

text \<open>
  For claim C8: the invariant as the claim states it. \<open>rollback_target\<close> is the
  checkpoint that the store hands to a rollback call. \<open>restored_phase calls s b\<close> follows
  a run and gives, at its end, the phase of the checkpoint restored by the last successful
  rollback, when no transition has been accepted since, and \<open>None\<close> otherwise (\<open>b\<close> is the
  value at the start). \<open>expected_phase\<close> is the phase restored by such a rollback or,
  without one, the phase in which the history ends. \<open>regress_calls\<close> moves the example
  executor to Refinement and rolls back to the checkpoint taken at Sketch; \<open>undo_calls\<close>
  moves it to Refinement, executes a stroke and rolls back to the checkpoint taken at
  Refinement.
\<close>

definition phase_consistent :: "WorkflowExecutor \<Rightarrow> bool" where
  "phase_consistent e =
     (current_phase (workflow_state e) =
        (if phase_history (workflow_state e) = [] then SKETCH
         else to_phase (last (phase_history (workflow_state e)))))"

fun rollback_target :: "call \<Rightarrow> WorkflowExecutor \<Rightarrow> CanvasCheckpoint option" where
  "rollback_target (RollbackToCheckpoint cid) e = get_checkpoint (checkpoint_manager e) cid"
| "rollback_target (RollbackToPhase p) e = fst (CheckpointManager_rollback_to_phase (checkpoint_manager e) p)"
| "rollback_target c e = None"

fun restored_phase ::
  "(env \<times> call) list \<Rightarrow> heap \<times> WorkflowExecutor \<Rightarrow> DrawingPhase option \<Rightarrow> DrawingPhase option" where
  "restored_phase [] s b = b"
| "restored_phase ((ev, c) # rest) s b =
     (case step ev c s of
        Inl err \<Rightarrow> b
      | Inr (out, s1) \<Rightarrow>
          restored_phase rest s1
            (if out = RolledBack True then map_option cp_phase (rollback_target c (snd s))
             else if out = Accepted True then None
             else b))"

definition expected_phase :: "WorkflowExecutor \<Rightarrow> DrawingPhase option \<Rightarrow> DrawingPhase" where
  "expected_phase e b =
     (case b of
        Some p \<Rightarrow> p
      | None \<Rightarrow>
          (if phase_history (workflow_state e) = [] then SKETCH
           else to_phase (last (phase_history (workflow_state e)))))"

definition regress_calls :: "(env \<times> call) list" where
  "regress_calls =
     [(example_env 1 ''1'', TransitionToPhase REFINEMENT ''quality met'' None True),
      (example_env 2 ''2'', RollbackToPhase SKETCH)]"

definition undo_calls :: "(env \<times> call) list" where
  "undo_calls =
     [(example_env 1 ''1'', TransitionToPhase REFINEMENT ''quality met'' None True),
      (example_env 2 ''2'', ExecuteStroke (example_stroke 2) None [] None None None None),
      (example_env 3 ''3'', RollbackToPhase REFINEMENT)]"

text \<open>
  Scenarios in which the clock returns a reading it has returned before, so that
  \<open>create_checkpoint\<close> makes an id that is already in use. In \<open>shared_id_calls\<close> the
  example executor (whose initial checkpoint was made at reading \<open>0\<close>) executes one stroke
  and then creates a checkpoint, again at reading \<open>0\<close>; \<open>shared_id_state\<close> is the state
  after these calls. In \<open>shared_stamp_requests\<close> the third and the fourth of four
  checkpoints are created at the same reading.
\<close>

definition shared_id_calls :: "(env \<times> call) list" where
  "shared_id_calls =
     [(example_env 1 ''1'', ExecuteStroke (example_stroke 2) None [] None None None None),
      (example_env 2 ''0'', CreateCheckpoint ''after stroke 1'' None)]"

definition shared_id_state :: "heap \<times> WorkflowExecutor" where
  "shared_id_state = projr (run shared_id_calls (example_heap, example_executor))"

definition shared_stamp_requests :: "checkpoint_request list" where
  "shared_stamp_requests =
     [(example_canvas, SKETCH, [], ''first'', None, ''1'', 1),
      (example_canvas, SKETCH, [], ''second'', None, ''2'', 2),
      (example_canvas, SKETCH, [], ''third'', None, ''3'', 3),
      (example_canvas, SKETCH, [], ''fourth'', None, ''3'', 4)]"

text \<open>
  For claim C10: the strokes passed to \<open>execute_stroke\<close> in a sequence of calls, in
  order; whether the sequence is free of rollback calls; the number of strokes executed
  since the last accepted transition (\<open>n\<close> is the number at the start); and the number of
  strokes executed while the current phase was \<open>p\<close>, over all visits of \<open>p\<close>.
  \<open>revisit_calls\<close> executes a stroke at Sketch, moves to Refinement, executes a stroke
  there and returns to Sketch.
\<close>

fun executed_strokes :: "(env \<times> call) list \<Rightarrow> Stroke list" where
  "executed_strokes [] = []"
| "executed_strokes ((ev, ExecuteStroke s i pu t a pre post) # rest) = s # executed_strokes rest"
| "executed_strokes ((ev, c) # rest) = executed_strokes rest"

fun no_rollbacks :: "(env \<times> call) list \<Rightarrow> bool" where
  "no_rollbacks [] = True"
| "no_rollbacks ((ev, RollbackToCheckpoint cid) # rest) = False"
| "no_rollbacks ((ev, RollbackToPhase p) # rest) = False"
| "no_rollbacks ((ev, c) # rest) = no_rollbacks rest"

fun strokes_since_transition :: "(env \<times> call) list \<Rightarrow> heap \<times> WorkflowExecutor \<Rightarrow> nat \<Rightarrow> nat" where
  "strokes_since_transition [] s n = n"
| "strokes_since_transition ((ev, c) # rest) s n =
     (case step ev c s of
        Inl err \<Rightarrow> n
      | Inr (out, s1) \<Rightarrow>
          strokes_since_transition rest s1
            (case out of StrokeId sid \<Rightarrow> n + 1 | Accepted ok \<Rightarrow> (if ok then 0 else n) | _ \<Rightarrow> n))"

fun strokes_in_phase :: "DrawingPhase \<Rightarrow> (env \<times> call) list \<Rightarrow> heap \<times> WorkflowExecutor \<Rightarrow> nat" where
  "strokes_in_phase p [] s = 0"
| "strokes_in_phase p ((ev, c) # rest) s =
     (case step ev c s of
        Inl err \<Rightarrow> 0
      | Inr (out, s1) \<Rightarrow>
          (case out of
             StrokeId sid \<Rightarrow> (if current_phase (workflow_state (snd s)) = p then 1 else 0)
           | _ \<Rightarrow> 0)
          + strokes_in_phase p rest s1)"

definition revisit_calls :: "(env \<times> call) list" where
  "revisit_calls =
     [(example_env 1 ''1'', ExecuteStroke (example_stroke 2) None [] None None None None),
      (example_env 2 ''2'', TransitionToPhase REFINEMENT [] None False),
      (example_env 3 ''3'', ExecuteStroke (example_stroke 3) None [] None None None None),
      (example_env 4 ''4'', TransitionToPhase SKETCH [] None False)]"

text \<open>
  Invariants used in the proofs about runs: the logger's current log is one of its logs;
  the logger, when enabled, has counted \<open>n\<close> strokes; a stroke's metadata carries a
  \<open>"workflow"\<close> dictionary, and that dictionary's \<open>"phase"\<close> entry is \<open>v\<close>.
\<close>

definition log_ok :: "DecisionLogger \<Rightarrow> bool" where
  "log_ok lg = (case current_log lg of None \<Rightarrow> False | Some i \<Rightarrow> i < length (phase_logs lg))"

definition logger_counts :: "WorkflowExecutor \<Rightarrow> bool \<Rightarrow> nat \<Rightarrow> bool" where
  "logger_counts e enabled n =
     (case decision_logger e of
        None \<Rightarrow> \<not> enabled
      | Some lg \<Rightarrow> enabled \<and> log_ok lg \<and> get_total_stroke_count lg = int n)"

definition tagged :: "heap \<Rightarrow> string \<Rightarrow> Stroke \<Rightarrow> bool" where
  "tagged h v s =
     (case map_of (cells h (stroke_metadata s)) ''workflow'' of
        Some (PDict wm) \<Rightarrow> map_of wm ''phase'' = Some (PStr v)
      | _ \<Rightarrow> False)"

definition has_workflow :: "heap \<Rightarrow> Stroke \<Rightarrow> bool" where
  "has_workflow h s =
     (case map_of (cells h (stroke_metadata s)) ''workflow'' of
        Some (PDict wm) \<Rightarrow> True
      | _ \<Rightarrow> False)"

section \<open>Claims about the phase model and the workflow state\<close>

text \<open>
  Claim C1. For each of the 25 ordered pairs of phases, \<open>is_valid_transition\<close> holds exactly
  when the pair is in the table of section 4.1; equivalently, exactly when the two phases
  are equal or neighbours in the fixed order, so that no valid transition skips a phase;
  Sketch to Rendering is rejected.
\<close>

theorem C1_is_valid_transition_table:
  "is_valid_transition from_p to_p = (to_p \<in> spec_table from_p)
   \<and> is_valid_transition from_p to_p = (\<bar>phase_index from_p - phase_index to_p\<bar> \<le> 1)
   \<and> is_valid_transition SKETCH RENDERING = False"
  by (cases from_p; cases to_p; simp add: is_valid_transition_def VALID_TRANSITIONS_def)

lemma valid_from_SKETCH: "is_valid_transition SKETCH SKETCH" "is_valid_transition SKETCH REFINEMENT"
  by (simp_all add: is_valid_transition_def VALID_TRANSITIONS_def)

text \<open>
  Claim C2. When the requested transition is not valid, \<open>transition_to_phase\<close> returns
  \<open>False\<close> and the state it leaves is the state it was given: every field, among them
  \<open>current_phase\<close>, \<open>phase_history\<close>, \<open>iteration_in_phase\<close>, \<open>total_strokes\<close> and
  \<open>phase_stroke_count\<close>, is unchanged. The method has no raising path, so the model has
  no error result.
\<close>

theorem C2_invalid_transition_no_change:
  assumes "\<not> is_valid_transition (current_phase s) p"
  shows "WorkflowState_transition_to_phase s p rsn mtr conf now1 now2 = (False, s)"
  using assms by (simp add: WorkflowState_transition_to_phase_def)

theorem C2_invalid_transition_no_change_witness:
  "\<not> is_valid_transition (current_phase (WorkflowState_init 0 ''w'')) RENDERING
   \<and> WorkflowState_transition_to_phase (WorkflowState_init 0 ''w'') RENDERING ''skip'' None 1 1 2
       = (False, WorkflowState_init 0 ''w'')"
proof -
  have h: "\<not> is_valid_transition (current_phase (WorkflowState_init 0 ''w'')) RENDERING"
    by (simp add: WorkflowState_init_def is_valid_transition_def VALID_TRANSITIONS_def)
  show ?thesis
    using h C2_invalid_transition_no_change [OF h, of "''skip''" None 1 1 2] by simp
qed

lemma transition_valid:
  "is_valid_transition (current_phase s) p \<Longrightarrow>
   WorkflowState_transition_to_phase s p rsn mtr conf now1 now2 =
     (True, s\<lparr>current_phase := p,
               phase_history := phase_history s @
                 [\<lparr>from_phase = current_phase s, to_phase = p, timestamp = now1, reason = rsn,
                   metrics = (case mtr of None \<Rightarrow> [] | Some m \<Rightarrow> m), confidence = conf\<rparr>],
               phase_start_time := now2,
               iteration_in_phase := (if p = current_phase s then iteration_in_phase s + 1 else 0),
               phase_stroke_count := 0\<rparr>)"
  by (simp add: WorkflowState_transition_to_phase_def Let_def)

text \<open>
  Claim C3. When the requested transition is valid, \<open>transition_to_phase\<close> returns \<open>True\<close>,
  appends exactly one record (from the old current phase to the target), makes the target
  the current phase, increments \<open>iteration_in_phase\<close> on a self-loop and resets it to zero
  otherwise, and resets \<open>phase_stroke_count\<close> to zero in every case. Starting at Sketch
  with iteration 0 and an empty history, three transitions to Sketch give iteration 3 and
  a history of length 3, and a following transition to Refinement gives iteration 0 and
  \<open>phase_stroke_count\<close> 0.
\<close>

theorem C3_valid_transition_effects:
  "(is_valid_transition (current_phase s) p \<longrightarrow>
      WorkflowState_transition_to_phase s p rsn mtr conf now1 now2 =
        (True, s\<lparr>current_phase := p,
               phase_history := phase_history s @
                 [\<lparr>from_phase = current_phase s, to_phase = p, timestamp = now1, reason = rsn,
                   metrics = (case mtr of None \<Rightarrow> [] | Some m \<Rightarrow> m), confidence = conf\<rparr>],
               phase_start_time := now2,
               iteration_in_phase := (if p = current_phase s then iteration_in_phase s + 1 else 0),
               phase_stroke_count := 0\<rparr>))
   \<and> (current_phase s0 = SKETCH \<and> iteration_in_phase s0 = 0 \<and> phase_history s0 = [] \<longrightarrow>
        (let (b1, s1) = WorkflowState_transition_to_phase s0 SKETCH r1 m1 c1 t1 u1;
             (b2, s2) = WorkflowState_transition_to_phase s1 SKETCH r2 m2 c2 t2 u2;
             (b3, s3) = WorkflowState_transition_to_phase s2 SKETCH r3 m3 c3 t3 u3;
             (b4, s4) = WorkflowState_transition_to_phase s3 REFINEMENT r4 m4 c4 t4 u4
         in b1 \<and> b2 \<and> b3 \<and> b4
            \<and> current_phase s3 = SKETCH \<and> iteration_in_phase s3 = 3
            \<and> length (phase_history s3) = 3
            \<and> current_phase s4 = REFINEMENT \<and> iteration_in_phase s4 = 0
            \<and> phase_stroke_count s4 = 0 \<and> length (phase_history s4) = 4))"
proof (intro conjI impI)
  assume "is_valid_transition (current_phase s) p"
  then show "WorkflowState_transition_to_phase s p rsn mtr conf now1 now2 =
        (True, s\<lparr>current_phase := p,
               phase_history := phase_history s @
                 [\<lparr>from_phase = current_phase s, to_phase = p, timestamp = now1, reason = rsn,
                   metrics = (case mtr of None \<Rightarrow> [] | Some m \<Rightarrow> m), confidence = conf\<rparr>],
               phase_start_time := now2,
               iteration_in_phase := (if p = current_phase s then iteration_in_phase s + 1 else 0),
               phase_stroke_count := 0\<rparr>)"
    by (rule transition_valid)
next
  assume "current_phase s0 = SKETCH \<and> iteration_in_phase s0 = 0 \<and> phase_history s0 = []"
  then show "(let (b1, s1) = WorkflowState_transition_to_phase s0 SKETCH r1 m1 c1 t1 u1;
             (b2, s2) = WorkflowState_transition_to_phase s1 SKETCH r2 m2 c2 t2 u2;
             (b3, s3) = WorkflowState_transition_to_phase s2 SKETCH r3 m3 c3 t3 u3;
             (b4, s4) = WorkflowState_transition_to_phase s3 REFINEMENT r4 m4 c4 t4 u4
         in b1 \<and> b2 \<and> b3 \<and> b4
            \<and> current_phase s3 = SKETCH \<and> iteration_in_phase s3 = 3
            \<and> length (phase_history s3) = 3
            \<and> current_phase s4 = REFINEMENT \<and> iteration_in_phase s4 = 0
            \<and> phase_stroke_count s4 = 0 \<and> length (phase_history s4) = 4)"
    by (simp add: transition_valid valid_from_SKETCH)
qed

theorem C3_valid_transition_effects_witness:
  "is_valid_transition (current_phase (WorkflowState_init 0 ''w'')) REFINEMENT
   \<and> fst (WorkflowState_transition_to_phase (WorkflowState_init 0 ''w'') REFINEMENT ''ok'' None 1 1 2)
   \<and> current_phase (snd (WorkflowState_transition_to_phase (WorkflowState_init 0 ''w'') REFINEMENT ''ok'' None 1 1 2)) = REFINEMENT
   \<and> iteration_in_phase (snd (WorkflowState_transition_to_phase
        (snd (WorkflowState_transition_to_phase
          (snd (WorkflowState_transition_to_phase (WorkflowState_init 0 ''w'') SKETCH [] None 1 1 2))
             SKETCH [] None 1 3 4)) SKETCH [] None 1 5 6)) = 3"
proof -
  have h: "is_valid_transition (current_phase (WorkflowState_init 0 ''w'')) REFINEMENT"
    by (simp add: WorkflowState_init_def is_valid_transition_def VALID_TRANSITIONS_def)
  have g: "current_phase (WorkflowState_init 0 ''w'') = SKETCH
      \<and> iteration_in_phase (WorkflowState_init 0 ''w'') = 0
      \<and> phase_history (WorkflowState_init 0 ''w'') = []"
    by (simp add: WorkflowState_init_def)
  note T = C3_valid_transition_effects [of "WorkflowState_init 0 ''w''" REFINEMENT "''ok''" None 1 1 2
      "WorkflowState_init 0 ''w''" "[]" None 1 1 2 "[]" None 1 3 4 "[]" None 1 5 6 "[]" None 1 7 8]
  from T h have a: "WorkflowState_transition_to_phase (WorkflowState_init 0 ''w'') REFINEMENT ''ok'' None 1 1 2 =
        (True, (WorkflowState_init 0 ''w'')\<lparr>current_phase := REFINEMENT,
               phase_history := phase_history (WorkflowState_init 0 ''w'') @
                 [\<lparr>from_phase = current_phase (WorkflowState_init 0 ''w''), to_phase = REFINEMENT, timestamp = 1, reason = ''ok'',
                   metrics = (case None of None \<Rightarrow> [] | Some m \<Rightarrow> m), confidence = 1\<rparr>],
               phase_start_time := 2,
               iteration_in_phase := (if REFINEMENT = current_phase (WorkflowState_init 0 ''w'') then iteration_in_phase (WorkflowState_init 0 ''w'') + 1 else 0),
               phase_stroke_count := 0\<rparr>)"
    by blast
  from T g have b: "(let (b1, s1) = WorkflowState_transition_to_phase (WorkflowState_init 0 ''w'') SKETCH [] None 1 1 2;
             (b2, s2) = WorkflowState_transition_to_phase s1 SKETCH [] None 1 3 4;
             (b3, s3) = WorkflowState_transition_to_phase s2 SKETCH [] None 1 5 6;
             (b4, s4) = WorkflowState_transition_to_phase s3 REFINEMENT [] None 1 7 8
         in b1 \<and> b2 \<and> b3 \<and> b4
            \<and> current_phase s3 = SKETCH \<and> iteration_in_phase s3 = 3
            \<and> length (phase_history s3) = 3
            \<and> current_phase s4 = REFINEMENT \<and> iteration_in_phase s4 = 0
            \<and> phase_stroke_count s4 = 0 \<and> length (phase_history s4) = 4)"
    by blast
  from b have c: "iteration_in_phase (snd (WorkflowState_transition_to_phase
        (snd (WorkflowState_transition_to_phase
          (snd (WorkflowState_transition_to_phase (WorkflowState_init 0 ''w'') SKETCH [] None 1 1 2))
             SKETCH [] None 1 3 4)) SKETCH [] None 1 5 6)) = 3"
    by (simp add: Let_def split_beta)
  show ?thesis using h a c by simp
qed

lemma eval_result:
  "fst (evaluate_and_decide_transition e m thr ev) =
     decided_suggestion (floats ev) (current_phase (workflow_state e)) m thr
       (iteration_in_phase (workflow_state e))"
  by (cases "current_phase (workflow_state e)")
     (auto simp: evaluate_and_decide_transition_def decided_suggestion_def Let_def
           split: option.splits)

lemma exact_mean_single: "py_mean exact_arith [Finite v] = Finite v"
  by (simp add: py_mean_def exact_arith_def)

lemma example_env_floats: "floats (example_env n t) = exact_arith"
  by (simp add: example_env_def)

lemma literal_comparisons:
  "float_le literal_0_7 literal_0_8"
  "\<not> float_le literal_0_7 literal_0_2"
  "float_lt literal_0_2 literal_0_4"
  "\<not> float_le literal_0_7 literal_0_55"
  "\<not> float_lt literal_0_55 literal_0_4"
  by (simp_all add: literal_0_2_def literal_0_4_def literal_0_55_def literal_0_7_def literal_0_8_def)

lemma valid_simps:
  "is_valid_transition a b = (b \<in> spec_table a)"
  by (cases a; cases b; simp add: is_valid_transition_def VALID_TRANSITIONS_def)


lemma complete_run:
  "\<not> isl (run complete_calls (example_heap, example_executor))
   \<and> current_phase (workflow_state (snd (projr (run complete_calls (example_heap, example_executor))))) = COMPLETE
   \<and> iteration_in_phase (workflow_state (snd (projr (run complete_calls (example_heap, example_executor))))) = 3"
  by (simp add: complete_calls_def example_executor_def WorkflowExecutor_init_def
      WorkflowExecutor_transition_to_phase_def WorkflowState_transition_to_phase_def
      valid_simps WorkflowState_init_def Let_def example_env_def
      WorkflowExecutor_create_checkpoint_def split_beta)

lemma rendering_run:
  "\<not> isl (run rendering_calls (example_heap, example_executor))
   \<and> current_phase (workflow_state (snd (projr (run rendering_calls (example_heap, example_executor))))) = RENDERING
   \<and> iteration_in_phase (workflow_state (snd (projr (run rendering_calls (example_heap, example_executor))))) = 3"
  by (simp add: rendering_calls_def example_executor_def WorkflowExecutor_init_def
      WorkflowExecutor_transition_to_phase_def WorkflowState_transition_to_phase_def
      valid_simps WorkflowState_init_def Let_def example_env_def
      WorkflowExecutor_create_checkpoint_def split_beta)

lemma example_executor_phase:
  "current_phase (workflow_state example_executor) = SKETCH"
  by (simp add: example_executor_def WorkflowExecutor_init_def WorkflowState_init_def Let_def
      WorkflowExecutor_create_checkpoint_def split_beta)

section \<open>Claims about the transition recommendation\<close>

text \<open>
  Claim C7, as stated, fails at Complete: after three iterations in Complete and with
  \<open>{quality: 0.2}\<close> (threshold 0.7) the claim gives the previous phase of the fixed
  order, Rendering, and \<open>evaluate_and_decide_transition\<close> returns \<open>None\<close>. The average of
  the one value is the value itself.
\<close>

theorem C7_complete_does_not_regress:
  "\<not> isl (run complete_calls (example_heap, example_executor))
   \<and> current_phase (workflow_state (snd (projr (run complete_calls (example_heap, example_executor))))) = COMPLETE
   \<and> iteration_in_phase (workflow_state (snd (projr (run complete_calls (example_heap, example_executor))))) = 3
   \<and> py_mean (floats (example_env 8 ''8'')) [literal_0_2] = literal_0_2
   \<and> fst (evaluate_and_decide_transition
             (snd (projr (run complete_calls (example_heap, example_executor))))
             [(''quality'', literal_0_2)] literal_0_7 (example_env 8 ''8'')) = None
   \<and> claimed_suggestion (floats (example_env 8 ''8'')) COMPLETE [(''quality'', literal_0_2)] literal_0_7 3
       = Some RENDERING
   \<and> fst (evaluate_and_decide_transition
             (snd (projr (run complete_calls (example_heap, example_executor))))
             [(''quality'', literal_0_2)] literal_0_7 (example_env 8 ''8''))
       \<noteq> claimed_suggestion (floats (example_env 8 ''8''))
            (current_phase (workflow_state (snd (projr (run complete_calls (example_heap, example_executor))))))
            [(''quality'', literal_0_2)] literal_0_7
            (iteration_in_phase (workflow_state (snd (projr (run complete_calls (example_heap, example_executor))))))"
proof -
  have m: "py_mean (floats (example_env 8 ''8'')) [literal_0_2] = literal_0_2"
    by (simp add: example_env_floats literal_0_2_def exact_mean_single)
  show ?thesis
    using complete_run m literal_comparisons
    by (simp add: eval_result decided_suggestion_def claimed_suggestion_def)
qed

text \<open>
  Claim C7, amended. \<open>evaluate_and_decide_transition\<close> returns \<open>None\<close> for an empty metrics
  map; otherwise, with \<open>avg\<close> the average of the metric values as the runtime computes it
  in double arithmetic, the next phase of the fixed order when \<open>avg >= threshold\<close>
  (\<open>None\<close> at Complete); else, when \<open>avg < 0.4\<close> and the iteration count is greater than 2,
  one step back from Rendering, Stylization or Refinement and \<open>None\<close> at Sketch and at
  Complete; and \<open>None\<close> in every other case. For a map with the one entry \<open>quality\<close>,
  whose average is the entry's value: at Sketch \<open>{quality: 0.8}\<close> gives Refinement, at
  Rendering with iteration count 3 \<open>{quality: 0.2}\<close> gives Stylization, and
  \<open>{quality: 0.55}\<close> gives \<open>None\<close> at any phase (threshold 0.7).
\<close>

theorem C7_evaluate_and_decide_transition:
  "fst (evaluate_and_decide_transition e m thr ev) =
     (if m = [] then None
      else if float_le thr (py_mean (floats ev) (map snd m))
           then next_in_order (current_phase (workflow_state e))
      else if float_lt (py_mean (floats ev) (map snd m)) literal_0_4
              \<and> iteration_in_phase (workflow_state e) > 2
           then regression_target (current_phase (workflow_state e))
      else None)
   \<and> (current_phase (workflow_state sk) = SKETCH
        \<and> py_mean (floats ev_sk) [literal_0_8] = literal_0_8 \<longrightarrow>
        fst (evaluate_and_decide_transition sk [(''quality'', literal_0_8)] literal_0_7 ev_sk)
          = Some REFINEMENT)
   \<and> (current_phase (workflow_state rd) = RENDERING \<and> iteration_in_phase (workflow_state rd) = 3
        \<and> py_mean (floats ev_rd) [literal_0_2] = literal_0_2 \<longrightarrow>
        fst (evaluate_and_decide_transition rd [(''quality'', literal_0_2)] literal_0_7 ev_rd)
          = Some STYLIZATION)
   \<and> (py_mean (floats ev_any) [literal_0_55] = literal_0_55 \<longrightarrow>
        fst (evaluate_and_decide_transition anye [(''quality'', literal_0_55)] literal_0_7 ev_any)
          = None)"
  using literal_comparisons
  by (simp add: eval_result decided_suggestion_def)

theorem C7_evaluate_and_decide_transition_witness:
  "current_phase (workflow_state example_executor) = SKETCH
   \<and> py_mean (floats (example_env 1 ''1'')) [literal_0_8] = literal_0_8
   \<and> fst (evaluate_and_decide_transition example_executor [(''quality'', literal_0_8)] literal_0_7
            (example_env 1 ''1'')) = Some REFINEMENT
   \<and> current_phase (workflow_state (snd (projr (run rendering_calls (example_heap, example_executor))))) = RENDERING
   \<and> iteration_in_phase (workflow_state (snd (projr (run rendering_calls (example_heap, example_executor))))) = 3
   \<and> py_mean (floats (example_env 7 ''7'')) [literal_0_2] = literal_0_2
   \<and> fst (evaluate_and_decide_transition (snd (projr (run rendering_calls (example_heap, example_executor))))
            [(''quality'', literal_0_2)] literal_0_7 (example_env 7 ''7'')) = Some STYLIZATION
   \<and> py_mean (floats (example_env 1 ''1'')) [literal_0_55] = literal_0_55
   \<and> fst (evaluate_and_decide_transition example_executor [(''quality'', literal_0_55)] literal_0_7
            (example_env 1 ''1'')) = None"
proof -
  note T = C7_evaluate_and_decide_transition
          [where sk = example_executor and ev_sk = "example_env 1 ''1''"
             and rd = "snd (projr (run rendering_calls (example_heap, example_executor)))"
             and ev_rd = "example_env 7 ''7''" and e = example_executor and m = "[]"
             and thr = literal_0_7
             and ev = "example_env 1 ''1''" and anye = example_executor and ev_any = "example_env 1 ''1''"]
  have m8: "py_mean (floats (example_env 1 ''1'')) [literal_0_8] = literal_0_8"
    by (simp add: example_env_floats literal_0_8_def exact_mean_single)
  have m2: "py_mean (floats (example_env 7 ''7'')) [literal_0_2] = literal_0_2"
    by (simp add: example_env_floats literal_0_2_def exact_mean_single)
  have m55: "py_mean (floats (example_env 1 ''1'')) [literal_0_55] = literal_0_55"
    by (simp add: example_env_floats literal_0_55_def exact_mean_single)
  have a: "fst (evaluate_and_decide_transition example_executor [(''quality'', literal_0_8)] literal_0_7
            (example_env 1 ''1'')) = Some REFINEMENT"
    using T example_executor_phase m8 by blast
  have b: "fst (evaluate_and_decide_transition (snd (projr (run rendering_calls (example_heap, example_executor))))
            [(''quality'', literal_0_2)] literal_0_7 (example_env 7 ''7'')) = Some STYLIZATION"
    using T rendering_run m2 by blast
  have c: "fst (evaluate_and_decide_transition example_executor [(''quality'', literal_0_55)] literal_0_7
            (example_env 1 ''1'')) = None"
    using T m55 by blast
  show ?thesis using a b c m8 m2 m55 example_executor_phase rendering_run by blast
qed

section \<open>Claims about the checkpoint store\<close>

lemma create_checkpoint_id:
  "checkpoint_id (fst (create_checkpoint cm cv ph ss d md st now)) = ''checkpoint_'' @ st"
  by (simp add: create_checkpoint_def Let_def)

lemma create_checkpoint_max:
  "max_checkpoints (snd (create_checkpoint cm cv ph ss d md st now)) = max_checkpoints cm"
  by (simp add: create_checkpoint_def Let_def)

lemma create_checkpoint_store:
  "checkpoints (snd (create_checkpoint cm cv ph ss d md st now)) =
     (if int (length (checkpoints cm)) + 1 > max_checkpoints cm
      then tl (checkpoints cm @ [fst (create_checkpoint cm cv ph ss d md st now)])
      else checkpoints cm @ [fst (create_checkpoint cm cv ph ss d md st now)])"
  by (simp add: create_checkpoint_def Let_def)

lemma create_checkpoints_ids:
  "map checkpoint_id (fst (create_checkpoints cm reqs)) = map (\<lambda>r. ''checkpoint_'' @ request_stamp r) reqs"
proof (induction reqs arbitrary: cm)
  case Nil
  then show ?case by simp
next
  case (Cons r reqs)
  obtain cv ph ss d md st now where r: "r = (cv, ph, ss, d, md, st, now)"
    by (cases r) auto
  show ?case
    using Cons.IH [of "snd (create_checkpoint cm cv ph ss d md st now)"]
    by (simp add: r split_beta Let_def create_checkpoint_id request_stamp_def)
qed

lemma create_checkpoints_length:
  "length (fst (create_checkpoints cm reqs)) = length reqs"
  using arg_cong [OF create_checkpoints_ids, of length cm reqs] by simp

lemma create_checkpoints_store:
  assumes "0 < k" "max_checkpoints cm = int k" "length (checkpoints cm) \<le> k"
  shows "checkpoints (snd (create_checkpoints cm reqs)) =
           drop (length (checkpoints cm) + length reqs - k)
                (checkpoints cm @ fst (create_checkpoints cm reqs))
         \<and> max_checkpoints (snd (create_checkpoints cm reqs)) = int k"
  using assms
proof (induction reqs arbitrary: cm)
  case Nil
  then show ?case by simp
next
  case (Cons r reqs)
  obtain cv ph ss d md st now where r: "r = (cv, ph, ss, d, md, st, now)"
    by (cases r) auto
  let ?cp = "fst (create_checkpoint cm cv ph ss d md st now)"
  let ?cm1 = "snd (create_checkpoint cm cv ph ss d md st now)"
  have mx: "max_checkpoints ?cm1 = int k"
    using Cons.prems by (simp add: create_checkpoint_max)
  have st1: "checkpoints ?cm1 = drop (length (checkpoints cm) + 1 - k) (checkpoints cm @ [?cp])"
    using Cons.prems by (auto simp: create_checkpoint_store drop_Suc tl_append split: list.splits)
  have len1: "length (checkpoints ?cm1) \<le> k"
    using Cons.prems st1 by simp
  note IH = Cons.IH [OF Cons.prems(1) mx len1]
  have len1': "length (checkpoints ?cm1) = min k (length (checkpoints cm) + 1)"
    using Cons.prems st1 by auto
  show ?case
    using IH Cons.prems st1 len1'
    apply (simp add: r split_beta Let_def)
    apply (cases "length (checkpoints cm) + 1 \<le> k")
     apply simp
    apply (simp add: min_def add.commute)
    done
qed

lemma find_distinct_key:
  "distinct (map f xs) \<Longrightarrow> x \<in> set xs \<Longrightarrow> find (\<lambda>y. f y = f x) xs = Some x"
  by (induction xs) (auto simp: image_iff)

lemma find_absent_key:
  "k \<notin> f ` set xs \<Longrightarrow> find (\<lambda>y. f y = k) xs = None"
  by (auto simp: find_None_iff)

text \<open>
  The bounded store under pairwise different clock readings. For every capacity
  \<open>k \<ge> 1\<close>, after \<open>k + 3\<close> checkpoints are created at pairwise different readings on a
  manager with \<open>max_checkpoints = k\<close>, \<open>get_checkpoint_count\<close> is \<open>k\<close>, the store holds
  exactly the \<open>k\<close> most recently created checkpoints in creation order, and
  \<open>get_checkpoint\<close> returns \<open>None\<close> for the id of each of the three oldest. Every single
  \<open>create_checkpoint\<close>, at any reading, appends the new checkpoint and removes at most
  the oldest one.
\<close>

lemma bounded_store_distinct_stamps:
  assumes "1 \<le> k" and "length reqs = k + 3" and "distinct (map request_stamp reqs)"
  shows "get_checkpoint_count (snd (create_checkpoints (CheckpointManager_init (int k)) reqs)) = int k
    \<and> length (fst (create_checkpoints (CheckpointManager_init (int k)) reqs)) = k + 3
    \<and> checkpoints (snd (create_checkpoints (CheckpointManager_init (int k)) reqs)) =
         drop 3 (fst (create_checkpoints (CheckpointManager_init (int k)) reqs))
    \<and> get_checkpoint (snd (create_checkpoints (CheckpointManager_init (int k)) reqs))
         (checkpoint_id (fst (create_checkpoints (CheckpointManager_init (int k)) reqs) ! 0)) = None
    \<and> get_checkpoint (snd (create_checkpoints (CheckpointManager_init (int k)) reqs))
         (checkpoint_id (fst (create_checkpoints (CheckpointManager_init (int k)) reqs) ! 1)) = None
    \<and> get_checkpoint (snd (create_checkpoints (CheckpointManager_init (int k)) reqs))
         (checkpoint_id (fst (create_checkpoints (CheckpointManager_init (int k)) reqs) ! 2)) = None
    \<and> (checkpoints (snd (create_checkpoint cm0 cv ph ss d md st now)) =
          checkpoints cm0 @ [fst (create_checkpoint cm0 cv ph ss d md st now)]
        \<or> checkpoints (snd (create_checkpoint cm0 cv ph ss d md st now)) =
          tl (checkpoints cm0 @ [fst (create_checkpoint cm0 cv ph ss d md st now)]))"
proof -
  let ?cm = "CheckpointManager_init (int k)"
  let ?created = "fst (create_checkpoints ?cm reqs)"
  let ?final = "snd (create_checkpoints ?cm reqs)"
  have len: "length ?created = k + 3"
    using assms(2) by (simp add: create_checkpoints_length)
  have "checkpoints ?final = drop (length (checkpoints ?cm) + length reqs - k) (checkpoints ?cm @ ?created)"
    using create_checkpoints_store [of k ?cm reqs] assms(1)
    by (simp add: CheckpointManager_init_def)
  then have store: "checkpoints ?final = drop 3 ?created"
    using assms(2) by (simp add: CheckpointManager_init_def)
  have count: "get_checkpoint_count ?final = int k"
    using store len by (simp add: get_checkpoint_count_def)
  have "inj (\<lambda>t. ''checkpoint_'' @ t)"
    by (rule injI) simp
  then have "distinct (map (\<lambda>r. ''checkpoint_'' @ request_stamp r) reqs)"
    using assms(3) by (simp add: distinct_map inj_on_def comp_def)
  then have dist: "distinct (map checkpoint_id ?created)"
    by (simp add: create_checkpoints_ids)
  have split: "?created = take 3 ?created @ drop 3 ?created"
    by simp
  have disj: "checkpoint_id ` set (take 3 ?created) \<inter> checkpoint_id ` set (drop 3 ?created) = {}"
    using dist distinct_append [of "map checkpoint_id (take 3 ?created)" "map checkpoint_id (drop 3 ?created)"]
    by (simp flip: map_append)
  have evicted: "get_checkpoint ?final (checkpoint_id (?created ! i)) = None" if "i < 3" for i
  proof -
    have "?created ! i \<in> set (take 3 ?created)"
      using that len by (auto simp: in_set_conv_nth intro!: exI [of _ i])
    then have "checkpoint_id (?created ! i) \<notin> checkpoint_id ` set (drop 3 ?created)"
      using disj by blast
    then show ?thesis
      by (simp add: get_checkpoint_def store find_absent_key)
  qed
  have one: "checkpoints (snd (create_checkpoint cm0 cv ph ss d md st now)) =
          checkpoints cm0 @ [fst (create_checkpoint cm0 cv ph ss d md st now)]
        \<or> checkpoints (snd (create_checkpoint cm0 cv ph ss d md st now)) =
          tl (checkpoints cm0 @ [fst (create_checkpoint cm0 cv ph ss d md st now)])"
    by (simp add: create_checkpoint_store)
  show ?thesis
    using count len store evicted [of 0] evicted [of 1] evicted [of 2] one by simp
qed

lemma example_requests_run:
  "map checkpoint_id (checkpoints (snd (create_checkpoints (CheckpointManager_init 1) example_requests)))
     = [''checkpoint_4'']"
  by (simp add: example_requests_def CheckpointManager_init_def create_checkpoint_def Let_def)

text \<open>
  Claim C6. After \<open>k + 3\<close> checkpoints are created on a manager with
  \<open>max_checkpoints = k\<close>, \<open>get_checkpoint\<close> is to return \<open>None\<close> for the id of each of the
  three evicted checkpoints. With \<open>k = 1\<close> and the third and fourth checkpoint created at
  the same clock reading, the count is \<open>1\<close> and the store holds the fourth checkpoint
  only, but the third checkpoint, which was evicted, has the id of the fourth, and
  \<open>get_checkpoint\<close> with the id of the third returns the fourth instead of \<open>None\<close>.
\<close>

theorem C6_evicted_id_still_found:
  "length shared_stamp_requests = 1 + 3
   \<and> get_checkpoint_count (snd (create_checkpoints (CheckpointManager_init 1) shared_stamp_requests)) = 1
   \<and> map description (fst (create_checkpoints (CheckpointManager_init 1) shared_stamp_requests))
       = [''first'', ''second'', ''third'', ''fourth'']
   \<and> map checkpoint_id (fst (create_checkpoints (CheckpointManager_init 1) shared_stamp_requests))
       = [''checkpoint_1'', ''checkpoint_2'', ''checkpoint_3'', ''checkpoint_3'']
   \<and> map description (checkpoints (snd (create_checkpoints (CheckpointManager_init 1) shared_stamp_requests)))
       = [''fourth'']
   \<and> get_checkpoint (snd (create_checkpoints (CheckpointManager_init 1) shared_stamp_requests))
         (checkpoint_id (fst (create_checkpoints (CheckpointManager_init 1) shared_stamp_requests) ! 2))
       \<noteq> None
   \<and> map_option description
         (get_checkpoint (snd (create_checkpoints (CheckpointManager_init 1) shared_stamp_requests))
            (checkpoint_id (fst (create_checkpoints (CheckpointManager_init 1) shared_stamp_requests) ! 2)))
       = Some ''fourth''"
  by (simp add: shared_stamp_requests_def CheckpointManager_init_def create_checkpoint_def
        get_checkpoint_def get_checkpoint_count_def Let_def)

section \<open>Claims about rollback\<close>

lemma find_enumerate:
  "map_option snd (find (\<lambda>(i, cp). P cp) (enumerate n xs)) = find P xs"
  by (induction xs arbitrary: n) auto

lemma manager_rollback_found:
  "fst (CheckpointManager_rollback_to_checkpoint cm cid) = get_checkpoint cm cid"
  using find_enumerate [of "\<lambda>cp. checkpoint_id cp = cid" 0 "checkpoints cm"]
  by (auto simp: CheckpointManager_rollback_to_checkpoint_def get_checkpoint_def
           split: option.splits)

lemma manager_rollback_store:
  "checkpoints (snd (CheckpointManager_rollback_to_checkpoint cm cid)) = checkpoints cm"
  "max_checkpoints (snd (CheckpointManager_rollback_to_checkpoint cm cid)) = max_checkpoints cm"
  by (auto simp: CheckpointManager_rollback_to_checkpoint_def split: option.splits)

lemma manager_rollback_none:
  "get_checkpoint cm cid = None \<Longrightarrow> CheckpointManager_rollback_to_checkpoint cm cid = (None, cm)"
  using manager_rollback_found [of cm cid]
  by (auto simp: CheckpointManager_rollback_to_checkpoint_def split: option.splits)

lemma BlendMode_roundtrip: "BlendMode_of_value (blend_value b) = Inr b"
  by (cases b) (simp_all add: BlendMode_of_value_def)

lemma StrokeType_roundtrip: "StrokeType_of_value (stroke_type_value t) = Inr t"
  by (cases t) (simp_all add: StrokeType_of_value_def)

lemma Layer_roundtrip: "Layer_from_dict (Layer_to_dict l) = Inr l"
  by (simp add: Layer_from_dict_def Layer_to_dict_def BlendMode_roundtrip)

lemma StrokePoint_copy:
  "\<lparr>x = x p, y = y p, pressure = pressure p, tilt_x = tilt_x p, tilt_y = tilt_y p,
    rotation = rotation p, point_timestamp = point_timestamp p, velocity = velocity p\<rparr> = p"
  by (cases p) simp

lemma Stroke_roundtrip: "Stroke_from_dict (Stroke_to_dict s) = Inr s"
  by (cases s) (simp add: Stroke_from_dict_def Stroke_to_dict_def StrokeType_roundtrip comp_def StrokePoint_copy)

lemma map_result_roundtrip:
  "(\<And>x. f (g x) = Inr x) \<Longrightarrow> map_result f (map g xs) = Inr xs"
  by (induction xs) auto

lemma Canvas_roundtrip:
  "Canvas_from_dict h u (Canvas_to_dict c) = Inr (Canvas_post_init h u c)"
  by (cases c) (simp add: Canvas_from_dict_def Canvas_to_dict_def map_result_roundtrip Layer_roundtrip)

lemma Canvas_post_init_nonempty:
  "layers c \<noteq> [] \<Longrightarrow> Canvas_post_init h u c = (c, h)"
  by (simp add: Canvas_post_init_def)

lemma Canvas_post_init_cells:
  "a \<noteq> next_addr h \<Longrightarrow> cells (snd (Canvas_post_init h u c)) a = cells h a"
  by (simp add: Canvas_post_init_def new_dict_def split_beta Let_def)

lemma created_payload:
  "canvas_state (fst (create_checkpoint cm cv ph ss d md st now)) = Canvas_to_dict cv"
  "cp_stroke_history (fst (create_checkpoint cm cv ph ss d md st now)) = map Stroke_to_dict ss"
  "cp_phase (fst (create_checkpoint cm cv ph ss d md st now)) = ph"
  "cp_timestamp (fst (create_checkpoint cm cv ph ss d md st now)) = now"
  by (simp_all add: create_checkpoint_def Let_def)

lemma rollback_unknown:
  "get_checkpoint (checkpoint_manager e) cid = None \<Longrightarrow>
   WorkflowExecutor_rollback_to_checkpoint h e cid ev = Inr (False, h, e)"
  by (simp add: WorkflowExecutor_rollback_to_checkpoint_def manager_rollback_none)

lemma rollback_result:
  "WorkflowExecutor_rollback_to_checkpoint h e cid ev =
     (case get_checkpoint (checkpoint_manager e) cid of
        None \<Rightarrow> Inr (False, h, e)
      | Some cp \<Rightarrow>
          (case restore_checkpoint h (uuid ev) cp of
             Inl err \<Rightarrow> Inl err
           | Inr (cv, h1) \<Rightarrow>
               (case get_stroke_history_at_checkpoint cp of
                  Inl err \<Rightarrow> Inl err
                | Inr sh \<Rightarrow>
                    Inr (True, h1,
                         e\<lparr>checkpoint_manager := snd (CheckpointManager_rollback_to_checkpoint (checkpoint_manager e) cid),
                           canvas := cv, stroke_history := sh,
                           workflow_state := (workflow_state e)
                              \<lparr>current_phase := cp_phase cp, phase_start_time := cp_timestamp cp,
                               total_strokes := int (length sh)\<rparr>\<rparr>))))"
  using manager_rollback_found [of "checkpoint_manager e" cid]
  by (cases "get_checkpoint (checkpoint_manager e) cid")
     (auto simp: WorkflowExecutor_rollback_to_checkpoint_def manager_rollback_none split_beta Let_def
           split: sum.splits option.splits)

lemmas example_defs =
  example_executor_def WorkflowExecutor_init_def WorkflowState_init_def example_env_def
  WorkflowExecutor_create_checkpoint_def CheckpointManager_init_def DecisionLogger_init_def
  example_canvas_def example_heap_def example_stroke_def

lemmas executor_defs =
  execute_stroke_def create_checkpoint_def record_stroke_def log_stroke_def start_phase_def
  on_current_log_def add_stroke_decision_def get_primary_intent_def PRIMARY_INTENT_def
  dict_setitem_def Stroke_to_dict_def Canvas_to_dict_def Layer_to_dict_def
  StrokeMetadata_to_dict_def py_opt_str_def py_opt_float_def

lemma one_stroke_state_facts:
  "length (stroke_history (snd one_stroke_state)) = 1"
  "stroke_history (snd one_stroke_state) = [example_stroke 2]"
  "map checkpoint_id (checkpoints (checkpoint_manager (snd one_stroke_state))) = [''checkpoint_0'']"
  by (simp_all add: one_stroke_state_def one_stroke_calls_def example_defs executor_defs Let_def split_beta)

lemma rollback_state_facts:
  "stroke_history (snd rollback_state) = [example_stroke 2, example_stroke 3, example_stroke 4]"
  "total_strokes (workflow_state (snd rollback_state)) = 3"
  "phase_stroke_count (workflow_state (snd rollback_state)) = 3"
  "map checkpoint_id (checkpoints (checkpoint_manager (snd rollback_state))) = [''checkpoint_0'', ''checkpoint_2'']"
  "get_checkpoint (checkpoint_manager (snd rollback_state)) ''checkpoint_2'' =
     Some (fst (create_checkpoint (checkpoint_manager (snd one_stroke_state)) (canvas (snd one_stroke_state))
             (current_phase (workflow_state (snd one_stroke_state))) (stroke_history (snd one_stroke_state))
             ''after stroke 1'' None ''2'' 2))"
  "get_checkpoint (checkpoint_manager (snd rollback_state)) ''checkpoint_99'' = None"
  by (simp_all add: rollback_state_def rollback_calls_def one_stroke_state_def one_stroke_calls_def
        example_defs executor_defs get_checkpoint_def Let_def split_beta)

text \<open>
  Rollback by id, in terms of the checkpoint that the store's lookup finds (the first
  stored checkpoint that carries the id). If the lookup finds none,
  \<open>rollback_to_checkpoint\<close> returns \<open>False\<close> and memory and executor (canvas, stroke
  history, workflow state and the rest) are unchanged. If it finds a checkpoint that
  \<open>create_checkpoint\<close> made when the executor was \<open>e0\<close>, the rollback returns \<open>True\<close>
  without raising, and afterwards the stroke history is the history of \<open>e0\<close>, so its
  length and \<open>total_strokes\<close> are the length of that history, whatever the executor \<open>e\<close>
  has become since.
\<close>

lemma rollback_to_found_checkpoint:
  "(get_checkpoint (checkpoint_manager e) cid = None \<longrightarrow>
      WorkflowExecutor_rollback_to_checkpoint h e cid ev = Inr (False, h, e))
   \<and> (get_checkpoint (checkpoint_manager e) cid =
         Some (fst (create_checkpoint (checkpoint_manager e0) (canvas e0)
                      (current_phase (workflow_state e0)) (stroke_history e0) d md st now)) \<longrightarrow>
        \<not> isl (WorkflowExecutor_rollback_to_checkpoint h e cid ev)
        \<and> fst (projr (WorkflowExecutor_rollback_to_checkpoint h e cid ev)) = True
        \<and> stroke_history (snd (snd (projr (WorkflowExecutor_rollback_to_checkpoint h e cid ev))))
              = stroke_history e0
        \<and> length (stroke_history (snd (snd (projr (WorkflowExecutor_rollback_to_checkpoint h e cid ev)))))
              = length (stroke_history e0)
        \<and> total_strokes (workflow_state (snd (snd (projr (WorkflowExecutor_rollback_to_checkpoint h e cid ev)))))
              = int (length (stroke_history e0)))"
  by (simp add: rollback_result restore_checkpoint_def get_stroke_history_at_checkpoint_def
        created_payload Canvas_roundtrip map_result_roundtrip Stroke_roundtrip split_beta)

lemma shared_id_state_facts:
  "\<not> isl (run shared_id_calls (example_heap, example_executor))"
  "map checkpoint_id (checkpoints (checkpoint_manager (snd shared_id_state)))
     = [''checkpoint_0'', ''checkpoint_0'']"
  "map description (checkpoints (checkpoint_manager (snd shared_id_state)))
     = [''Initial canvas state'', ''after stroke 1'']"
  "map (\<lambda>cp. length (cp_stroke_history cp)) (checkpoints (checkpoint_manager (snd shared_id_state)))
     = [0, 1]"
  "length (stroke_history (snd shared_id_state)) = 1"
  "get_checkpoint (checkpoint_manager (snd shared_id_state)) ''checkpoint_0'' =
     Some (fst (create_checkpoint (CheckpointManager_init 10) example_canvas SKETCH []
             ''Initial canvas state'' (Some [(''type'', PStr ''initial'')]) ''0'' 0))"
  by (simp_all add: shared_id_state_def shared_id_calls_def example_defs executor_defs
        get_checkpoint_def Let_def split_beta)

text \<open>
  Claim C5. For a stored checkpoint that was created when the stroke history had length
  \<open>S\<close>, \<open>rollback_to_checkpoint\<close> with its id is to return \<open>True\<close> and leave a stroke
  history of length \<open>S\<close> and \<open>total_strokes = S\<close>. On the example executor, after one
  stroke a checkpoint is created at the clock reading at which the initial checkpoint
  was made. The store then holds two checkpoints with the id \<open>checkpoint_0\<close>: the initial
  one, created at history length \<open>0\<close>, and the new one, created at history length
  \<open>S = 1\<close>. Rollback with the id of the new checkpoint returns \<open>True\<close>, and afterwards
  the stroke history has length \<open>0\<close> and \<open>total_strokes\<close> is \<open>0\<close>, not \<open>1\<close>.
\<close>

theorem C5_rollback_with_shared_id:
  "\<not> isl (run shared_id_calls (example_heap, example_executor))
   \<and> map checkpoint_id (checkpoints (checkpoint_manager (snd shared_id_state)))
     = [''checkpoint_0'', ''checkpoint_0'']
   \<and> map description (checkpoints (checkpoint_manager (snd shared_id_state)))
     = [''Initial canvas state'', ''after stroke 1'']
   \<and> map (\<lambda>cp. length (cp_stroke_history cp)) (checkpoints (checkpoint_manager (snd shared_id_state)))
     = [0, 1]
   \<and> length (stroke_history (snd shared_id_state)) = 1
   \<and> \<not> isl (WorkflowExecutor_rollback_to_checkpoint (fst shared_id_state) (snd shared_id_state)
               ''checkpoint_0'' (example_env 3 ''3''))
   \<and> fst (projr (WorkflowExecutor_rollback_to_checkpoint (fst shared_id_state) (snd shared_id_state)
               ''checkpoint_0'' (example_env 3 ''3''))) = True
   \<and> length (stroke_history (snd (snd (projr (WorkflowExecutor_rollback_to_checkpoint
               (fst shared_id_state) (snd shared_id_state) ''checkpoint_0'' (example_env 3 ''3''))))))
       = 0
   \<and> total_strokes (workflow_state (snd (snd (projr (WorkflowExecutor_rollback_to_checkpoint
               (fst shared_id_state) (snd shared_id_state) ''checkpoint_0'' (example_env 3 ''3''))))))
       = 0"
proof -
  have r: "\<not> isl (WorkflowExecutor_rollback_to_checkpoint (fst shared_id_state) (snd shared_id_state)
               ''checkpoint_0'' (example_env 3 ''3''))
     \<and> fst (projr (WorkflowExecutor_rollback_to_checkpoint (fst shared_id_state) (snd shared_id_state)
               ''checkpoint_0'' (example_env 3 ''3''))) = True
     \<and> stroke_history (snd (snd (projr (WorkflowExecutor_rollback_to_checkpoint
               (fst shared_id_state) (snd shared_id_state) ''checkpoint_0'' (example_env 3 ''3''))))) = []
     \<and> total_strokes (workflow_state (snd (snd (projr (WorkflowExecutor_rollback_to_checkpoint
               (fst shared_id_state) (snd shared_id_state) ''checkpoint_0'' (example_env 3 ''3''))))))
       = 0"
    using shared_id_state_facts(6)
    by (simp add: rollback_result restore_checkpoint_def get_stroke_history_at_checkpoint_def
        created_payload Canvas_roundtrip map_result_roundtrip Stroke_roundtrip split_beta)
  show ?thesis
    using r shared_id_state_facts(1,2,3,4,5) by simp
qed

text \<open>
  Claim C9. A successful \<open>rollback_to_checkpoint\<close> leaves the list of stored checkpoints,
  their count, the capacity and every lookup as they were, so the checkpoints created
  after the target are still retrievable; of the workflow state it overwrites
  \<open>current_phase\<close>, \<open>phase_start_time\<close> and \<open>total_strokes\<close> only, so
  \<open>phase_stroke_count\<close> (and the history and the iteration counter) keep their values;
  and the content of every dictionary that existed before the call is unchanged.
\<close>

theorem C9_rollback_frame:
  assumes "WorkflowExecutor_rollback_to_checkpoint h e cid ev = Inr (True, h', e')"
  shows "checkpoints (checkpoint_manager e') = checkpoints (checkpoint_manager e)
    \<and> get_checkpoint_count (checkpoint_manager e') = get_checkpoint_count (checkpoint_manager e)
    \<and> max_checkpoints (checkpoint_manager e') = max_checkpoints (checkpoint_manager e)
    \<and> get_checkpoint (checkpoint_manager e') c = get_checkpoint (checkpoint_manager e) c
    \<and> phase_stroke_count (workflow_state e') = phase_stroke_count (workflow_state e)
    \<and> phase_history (workflow_state e') = phase_history (workflow_state e)
    \<and> iteration_in_phase (workflow_state e') = iteration_in_phase (workflow_state e)
    \<and> get_checkpoint (checkpoint_manager e) cid \<noteq> None
    \<and> workflow_state e' =
         (workflow_state e)
           \<lparr>current_phase := cp_phase (the (get_checkpoint (checkpoint_manager e) cid)),
            phase_start_time := cp_timestamp (the (get_checkpoint (checkpoint_manager e) cid)),
            total_strokes := int (length (stroke_history e'))\<rparr>
    \<and> (a < next_addr h \<longrightarrow> cells h' a = cells h a)"
proof -
  obtain cp where cp: "get_checkpoint (checkpoint_manager e) cid = Some cp"
    using assms by (cases "get_checkpoint (checkpoint_manager e) cid") (auto simp: rollback_result)
  obtain cv sh where
    r: "restore_checkpoint h (uuid ev) cp = Inr (cv, h')" and
    s: "get_stroke_history_at_checkpoint cp = Inr sh" and
    e': "e' = e\<lparr>checkpoint_manager := snd (CheckpointManager_rollback_to_checkpoint (checkpoint_manager e) cid),
                  canvas := cv, stroke_history := sh,
                  workflow_state := (workflow_state e)
                     \<lparr>current_phase := cp_phase cp, phase_start_time := cp_timestamp cp,
                      total_strokes := int (length sh)\<rparr>\<rparr>"
    using assms cp by (auto simp: rollback_result split: sum.splits)
  have heap: "cells h' a = cells h a" if "a < next_addr h"
    using r that
    by (auto simp: restore_checkpoint_def Canvas_from_dict_def Canvas_post_init_def new_dict_def
             Let_def split: sum.splits if_splits)
  show ?thesis
    using cp heap by (simp add: e' manager_rollback_store get_checkpoint_def get_checkpoint_count_def)
qed

theorem C9_rollback_frame_witness:
  "WorkflowExecutor_rollback_to_checkpoint (fst rollback_state) (snd rollback_state)
      ''checkpoint_0'' (example_env 5 ''5'')
     = Inr (True, fst (snd (projr (WorkflowExecutor_rollback_to_checkpoint (fst rollback_state)
                 (snd rollback_state) ''checkpoint_0'' (example_env 5 ''5'')))),
            snd (snd (projr (WorkflowExecutor_rollback_to_checkpoint (fst rollback_state)
                 (snd rollback_state) ''checkpoint_0'' (example_env 5 ''5'')))))
   \<and> map checkpoint_id (checkpoints (checkpoint_manager (snd (snd (projr
         (WorkflowExecutor_rollback_to_checkpoint (fst rollback_state) (snd rollback_state)
            ''checkpoint_0'' (example_env 5 ''5'')))))))
       = [''checkpoint_0'', ''checkpoint_2'']
   \<and> phase_stroke_count (workflow_state (snd (snd (projr
         (WorkflowExecutor_rollback_to_checkpoint (fst rollback_state) (snd rollback_state)
            ''checkpoint_0'' (example_env 5 ''5'')))))) = 3
   \<and> total_strokes (workflow_state (snd (snd (projr
         (WorkflowExecutor_rollback_to_checkpoint (fst rollback_state) (snd rollback_state)
            ''checkpoint_0'' (example_env 5 ''5'')))))) = 0"
proof -
  let ?r = "WorkflowExecutor_rollback_to_checkpoint (fst rollback_state) (snd rollback_state)
      ''checkpoint_0'' (example_env 5 ''5'')"
  have found: "get_checkpoint (checkpoint_manager (snd rollback_state)) ''checkpoint_0'' =
     Some (fst (create_checkpoint (CheckpointManager_init 10) example_canvas SKETCH []
             ''Initial canvas state'' (Some [(''type'', PStr ''initial'')]) ''0'' 0))"
    by (simp add: rollback_state_def rollback_calls_def one_stroke_state_def one_stroke_calls_def
        example_defs executor_defs get_checkpoint_def Let_def split_beta)
  have ok: "\<not> isl ?r \<and> fst (projr ?r) = True
      \<and> stroke_history (snd (snd (projr ?r))) = []"
    using found
    by (simp add: rollback_result restore_checkpoint_def get_stroke_history_at_checkpoint_def
        created_payload Canvas_roundtrip map_result_roundtrip Stroke_roundtrip split_beta)
  then have h: "?r = Inr (True, fst (snd (projr ?r)), snd (snd (projr ?r)))"
    by (cases ?r) auto
  note T = C9_rollback_frame [OF h]
  show ?thesis
    using h T ok rollback_state_facts(3,4) by simp
qed

section \<open>Claims about the independence of checkpoints\<close>

text \<open>
  Claim C4 asks that a checkpoint holds values independent of the live objects. The code
  at a concrete input: the checkpoint of the example canvas restores to an equal canvas,
  but \<open>canvas_state["metadata"]\<close> and the stored stroke's \<open>"metadata"\<close> are the live
  dictionary objects, and so is the metadata of the restored canvas; after the live
  dictionaries are mutated, the checkpoint and the canvas restored from it read the new
  entry. For a canvas without layers the restored canvas has a default layer, so it is
  not equal to the live canvas.
\<close>

theorem C4_checkpoint_shares_metadata:
  "restore_checkpoint example_heap ''uuid-1'' snapshot_checkpoint = Inr (example_canvas, example_heap)
   \<and> get_stroke_history_at_checkpoint snapshot_checkpoint = Inr [example_stroke 2]
   \<and> cd_metadata (canvas_state snapshot_checkpoint) = canvas_metadata example_canvas
   \<and> sd_metadata (cp_stroke_history snapshot_checkpoint ! 0) = stroke_metadata (example_stroke 2)
   \<and> cells example_heap (cd_metadata (canvas_state snapshot_checkpoint)) = []
   \<and> cells mutated_heap (cd_metadata (canvas_state snapshot_checkpoint)) = [(''note'', PStr ''changed'')]
   \<and> cells example_heap (sd_metadata (cp_stroke_history snapshot_checkpoint ! 0)) = []
   \<and> cells mutated_heap (sd_metadata (cp_stroke_history snapshot_checkpoint ! 0)) = [(''note'', PStr ''changed'')]
   \<and> cells example_heap
         (canvas_metadata (fst (projr (restore_checkpoint example_heap ''uuid-1'' snapshot_checkpoint)))) = []
   \<and> cells mutated_heap
         (canvas_metadata (fst (projr (restore_checkpoint example_heap ''uuid-1'' snapshot_checkpoint))))
       = [(''note'', PStr ''changed'')]
   \<and> layers empty_canvas = []
   \<and> map layer_name (layers (fst (projr (restore_checkpoint example_heap ''uuid-1'' empty_canvas_checkpoint))))
       = [''Layer 1'']
   \<and> fst (projr (restore_checkpoint example_heap ''uuid-1'' empty_canvas_checkpoint)) \<noteq> empty_canvas"
proof -
  have r1: "restore_checkpoint example_heap ''uuid-1'' snapshot_checkpoint = Inr (example_canvas, example_heap)"
    by (simp add: snapshot_checkpoint_def restore_checkpoint_def created_payload Canvas_roundtrip
          Canvas_post_init_def example_canvas_def)
  have r2: "get_stroke_history_at_checkpoint snapshot_checkpoint = Inr [example_stroke 2]"
    by (simp add: snapshot_checkpoint_def get_stroke_history_at_checkpoint_def created_payload
          map_result_roundtrip Stroke_roundtrip)
  have a1: "cd_metadata (canvas_state snapshot_checkpoint) = 0"
    by (simp add: snapshot_checkpoint_def created_payload Canvas_to_dict_def example_canvas_def)
  have a2: "sd_metadata (cp_stroke_history snapshot_checkpoint ! 0) = 2"
    by (simp add: snapshot_checkpoint_def created_payload Stroke_to_dict_def example_stroke_def)
  have a3: "canvas_metadata example_canvas = 0" "stroke_metadata (example_stroke 2) = 2"
    by (simp_all add: example_canvas_def example_stroke_def)
  have h0: "cells example_heap 0 = []" "cells example_heap 2 = []"
    by (simp_all add: example_heap_def)
  have h1: "cells mutated_heap 0 = [(''note'', PStr ''changed'')]"
           "cells mutated_heap 2 = [(''note'', PStr ''changed'')]"
    by (simp_all add: mutated_heap_def dict_setitem_def example_heap_def a3)
  have e1: "layers empty_canvas = []"
    by (simp add: empty_canvas_def)
  have e2: "restore_checkpoint example_heap ''uuid-1'' empty_canvas_checkpoint
              = Inr (Canvas_post_init example_heap ''uuid-1'' empty_canvas)"
    by (simp add: empty_canvas_checkpoint_def restore_checkpoint_def created_payload Canvas_roundtrip)
  have e3: "map layer_name (layers (fst (Canvas_post_init example_heap ''uuid-1'' empty_canvas))) = [''Layer 1'']"
    by (simp add: Canvas_post_init_def e1 new_dict_def Let_def)
  have e4: "fst (Canvas_post_init example_heap ''uuid-1'' empty_canvas) \<noteq> empty_canvas"
    using e1 e3 by auto
  show ?thesis
    by (simp add: r1 r2 a1 a2 a3 h0 h1 e1 e2 e3 e4)
qed

section \<open>Claims about runs of the executor\<close>

lemma create_checkpoint_frame:
  "workflow_state (snd (WorkflowExecutor_create_checkpoint e d md ev)) = workflow_state e"
  "stroke_history (snd (WorkflowExecutor_create_checkpoint e d md ev)) = stroke_history e"
  "decision_logger (snd (WorkflowExecutor_create_checkpoint e d md ev)) = decision_logger e"
  "canvas (snd (WorkflowExecutor_create_checkpoint e d md ev)) = canvas e"
  by (simp_all add: WorkflowExecutor_create_checkpoint_def split_beta)

lemma executor_transition_frame:
  "fst (WorkflowExecutor_transition_to_phase e p r m mk ev) =
     fst (WorkflowState_transition_to_phase (workflow_state e) p r m 1 (now_transition ev) (now_phase_start ev))"
  "workflow_state (snd (WorkflowExecutor_transition_to_phase e p r m mk ev)) =
     snd (WorkflowState_transition_to_phase (workflow_state e) p r m 1 (now_transition ev) (now_phase_start ev))"
  "stroke_history (snd (WorkflowExecutor_transition_to_phase e p r m mk ev)) = stroke_history e"
  by (auto simp: WorkflowExecutor_transition_to_phase_def split_beta Let_def create_checkpoint_frame
           split: option.splits)

lemma execute_stroke_frame:
  "workflow_state (snd (snd (execute_stroke h e s i pu t a pre post ev))) = record_stroke (workflow_state e)"
  "stroke_history (snd (snd (execute_stroke h e s i pu t a pre post ev))) = stroke_history e @ [s]"
  by (auto simp: execute_stroke_def Let_def split: option.splits)

lemma evaluate_frame:
  "workflow_state (snd (evaluate_and_decide_transition e m thr ev)) = workflow_state e"
  "stroke_history (snd (evaluate_and_decide_transition e m thr ev)) = stroke_history e"
  by (auto simp: evaluate_and_decide_transition_def Let_def split: option.splits)

lemma rollback_failed:
  "WorkflowExecutor_rollback_to_checkpoint h e cid ev = Inr (False, h1, e1) \<Longrightarrow> h1 = h \<and> e1 = e"
  by (auto simp: rollback_result split: option.splits sum.splits)

lemma manager_rollback_phase_none:
  "fst (CheckpointManager_rollback_to_phase cm p) = None \<Longrightarrow>
   snd (CheckpointManager_rollback_to_phase cm p) = cm"
  using manager_rollback_found [of cm "checkpoint_id (last (get_checkpoints_by_phase cm p))"]
        manager_rollback_none [of cm "checkpoint_id (last (get_checkpoints_by_phase cm p))"]
  by (auto simp: CheckpointManager_rollback_to_phase_def Let_def split: if_splits)

lemma manager_rollback_phase_some:
  "fst (CheckpointManager_rollback_to_phase cm p) = Some cp \<Longrightarrow>
   get_checkpoint (snd (CheckpointManager_rollback_to_phase cm p)) (checkpoint_id cp) \<noteq> None"
proof -
  assume a: "fst (CheckpointManager_rollback_to_phase cm p) = Some cp"
  let ?cid = "checkpoint_id (last (get_checkpoints_by_phase cm p))"
  from a have f: "get_checkpoint cm ?cid = Some cp"
    using manager_rollback_found [of cm ?cid]
    by (auto simp: CheckpointManager_rollback_to_phase_def Let_def split: if_splits)
  then have "checkpoint_id cp = ?cid"
    by (auto simp: get_checkpoint_def simp: find_Some_iff)  
  then show ?thesis
    using a f
    by (auto simp: CheckpointManager_rollback_to_phase_def Let_def get_checkpoint_def
          manager_rollback_store split: if_splits)
qed

lemma rollback_phase_failed:
  "WorkflowExecutor_rollback_to_phase h e p ev = Inr (False, h1, e1) \<Longrightarrow> h1 = h \<and> e1 = e"
proof -
  assume a: "WorkflowExecutor_rollback_to_phase h e p ev = Inr (False, h1, e1)"
  show ?thesis
  proof (cases "fst (CheckpointManager_rollback_to_phase (checkpoint_manager e) p)")
    case None
    then show ?thesis
      using a manager_rollback_phase_none [OF None]
      by (auto simp: WorkflowExecutor_rollback_to_phase_def split_beta)
  next
    case (Some cp)
    let ?e1 = "e\<lparr>checkpoint_manager := snd (CheckpointManager_rollback_to_phase (checkpoint_manager e) p)\<rparr>"
    have "WorkflowExecutor_rollback_to_checkpoint h ?e1 (checkpoint_id cp) ev = Inr (False, h1, e1)"
      using a Some by (simp add: WorkflowExecutor_rollback_to_phase_def split_beta)
    moreover have "get_checkpoint (checkpoint_manager ?e1) (checkpoint_id cp) \<noteq> None"
      using manager_rollback_phase_some [OF Some] by simp
    ultimately show ?thesis
      by (auto simp: rollback_result split: option.splits sum.splits)
  qed
qed

lemma phase_consistent_ws:
  "workflow_state e1 = workflow_state e \<Longrightarrow> phase_consistent e1 = phase_consistent e"
  by (simp add: phase_consistent_def)

lemma phase_consistent_record_stroke:
  "workflow_state e1 = record_stroke (workflow_state e) \<Longrightarrow> phase_consistent e1 = phase_consistent e"
  by (simp add: phase_consistent_def record_stroke_def Let_def)

lemma transition_consistent:
  assumes "workflow_state e1 = snd (WorkflowState_transition_to_phase (workflow_state e) p r m c t1 t2)"
  shows "fst (WorkflowState_transition_to_phase (workflow_state e) p r m c t1 t2) \<Longrightarrow> phase_consistent e1"
    and "\<not> fst (WorkflowState_transition_to_phase (workflow_state e) p r m c t1 t2) \<Longrightarrow>
           phase_consistent e1 = phase_consistent e"
  using assms
  by (auto simp: phase_consistent_def WorkflowState_transition_to_phase_def Let_def split: if_splits)

lemma step_workflow_state:
  assumes "step ev c (h, e) = Inr (out, h1, e1)"
  shows "(\<exists>sid. out = StrokeId sid \<and> workflow_state e1 = record_stroke (workflow_state e))
       \<or> (\<exists>p r m. out = Accepted (fst (WorkflowState_transition_to_phase (workflow_state e) p r m 1
                                        (now_transition ev) (now_phase_start ev)))
              \<and> workflow_state e1 = snd (WorkflowState_transition_to_phase (workflow_state e) p r m 1
                                        (now_transition ev) (now_phase_start ev)))
       \<or> (\<exists>cid. out = CheckpointId cid \<and> workflow_state e1 = workflow_state e)
       \<or> out = RolledBack True
       \<or> (out = RolledBack False \<and> workflow_state e1 = workflow_state e)
       \<or> (\<exists>sg. out = Suggested sg \<and> workflow_state e1 = workflow_state e)"
proof (cases c)
  case (ExecuteStroke s i pu t a pre post)
  then show ?thesis
    using assms execute_stroke_frame(1) [of h e s i pu t a pre post ev]
    by (auto simp: split_beta)
next
  case (TransitionToPhase p r m mk)
  then show ?thesis
    using assms executor_transition_frame(1,2) [of e p r m mk ev]
    by (auto simp: split_beta)
next
  case (CreateCheckpoint d md)
  then show ?thesis
    using assms create_checkpoint_frame(1) [of e d md ev]
    by (auto simp: split_beta)
next
  case (RollbackToCheckpoint cid)
  then show ?thesis
    using assms rollback_failed [of h e cid ev]
    by (cases out) (auto split: sum.splits)
next
  case (RollbackToPhase p)
  then show ?thesis
    using assms rollback_phase_failed [of h e p ev]
    by (cases out) (auto split: sum.splits)
next
  case (EvaluateAndDecide m thr)
  then show ?thesis
    using assms evaluate_frame(1) [of e m thr ev]
    by (auto simp: split_beta)
qed

lemma init_consistent: "phase_consistent (WorkflowExecutor_init cv mx lg ev0)"
  by (simp add: phase_consistent_def WorkflowExecutor_init_def WorkflowState_init_def Let_def
        create_checkpoint_frame split: option.splits)

lemma regress_run:
  "run regress_calls (example_heap, example_executor) =
     Inr (example_heap,
          snd (snd (projr (WorkflowExecutor_rollback_to_phase example_heap
             (snd (WorkflowExecutor_transition_to_phase example_executor REFINEMENT ''quality met'' None True
                     (example_env 1 ''1'')))
             SKETCH (example_env 2 ''2'')))))
   \<and> current_phase (workflow_state (snd (snd (projr (WorkflowExecutor_rollback_to_phase example_heap
             (snd (WorkflowExecutor_transition_to_phase example_executor REFINEMENT ''quality met'' None True
                     (example_env 1 ''1'')))
             SKETCH (example_env 2 ''2'')))))) = SKETCH
   \<and> map to_phase (phase_history (workflow_state (snd (snd (projr (WorkflowExecutor_rollback_to_phase example_heap
             (snd (WorkflowExecutor_transition_to_phase example_executor REFINEMENT ''quality met'' None True
                     (example_env 1 ''1'')))
             SKETCH (example_env 2 ''2''))))))) = [REFINEMENT]"
  by (simp add: regress_calls_def example_defs executor_defs
        WorkflowExecutor_transition_to_phase_def WorkflowState_transition_to_phase_def valid_simps
        WorkflowExecutor_rollback_to_phase_def CheckpointManager_rollback_to_phase_def
        CheckpointManager_rollback_to_checkpoint_def WorkflowExecutor_rollback_to_checkpoint_def
        get_checkpoints_by_phase_def 
        restore_checkpoint_def get_stroke_history_at_checkpoint_def Canvas_from_dict_def
        Layer_from_dict_def BlendMode_of_value_def Canvas_post_init_def
        close_phase_def PhaseDecisionLog_close_phase_def enumerate_eq_zip
        Let_def split_beta)

text \<open>
  Claim C8, as stated, fails after a rollback: the example executor moves to Refinement
  and rolls back to the Sketch checkpoint; then \<open>current_phase\<close> is Sketch and the last
  record of \<open>phase_history\<close> leads to Refinement.
\<close>

theorem C8_rollback_breaks_phase_invariant:
  "\<not> isl (run regress_calls (example_heap, example_executor))
   \<and> current_phase (workflow_state (snd (projr (run regress_calls (example_heap, example_executor))))) = SKETCH
   \<and> map to_phase (phase_history (workflow_state (snd (projr (run regress_calls (example_heap, example_executor))))))
       = [REFINEMENT]
   \<and> \<not> phase_consistent (snd (projr (run regress_calls (example_heap, example_executor))))"
  using regress_run by (auto simp: phase_consistent_def)

lemma manager_rollback_phase_lookup:
  assumes "fst (CheckpointManager_rollback_to_phase cm p) = Some cp"
  shows "get_checkpoint (snd (CheckpointManager_rollback_to_phase cm p)) (checkpoint_id cp) = Some cp"
proof -
  let ?cid = "checkpoint_id (last (get_checkpoints_by_phase cm p))"
  from assms have f: "get_checkpoint cm ?cid = Some cp"
    using manager_rollback_found [of cm ?cid]
    by (auto simp: CheckpointManager_rollback_to_phase_def Let_def split: if_splits)
  then have "checkpoint_id cp = ?cid"
    by (auto simp: get_checkpoint_def find_Some_iff)
  then show ?thesis
    using assms f
    by (auto simp: CheckpointManager_rollback_to_phase_def Let_def get_checkpoint_def
          manager_rollback_store split: if_splits)
qed

lemma rollback_succeeded:
  assumes "WorkflowExecutor_rollback_to_checkpoint h e cid ev = Inr (True, h1, e1)"
  shows "\<exists>cp. get_checkpoint (checkpoint_manager e) cid = Some cp
            \<and> current_phase (workflow_state e1) = cp_phase cp
            \<and> phase_history (workflow_state e1) = phase_history (workflow_state e)"
  using assms by (auto simp: rollback_result split: option.splits sum.splits)

lemma rollback_phase_succeeded:
  assumes "WorkflowExecutor_rollback_to_phase h e p ev = Inr (True, h1, e1)"
  shows "\<exists>cp. fst (CheckpointManager_rollback_to_phase (checkpoint_manager e) p) = Some cp
            \<and> current_phase (workflow_state e1) = cp_phase cp
            \<and> phase_history (workflow_state e1) = phase_history (workflow_state e)"
proof (cases "fst (CheckpointManager_rollback_to_phase (checkpoint_manager e) p)")
  case None
  then show ?thesis
    using assms by (auto simp: WorkflowExecutor_rollback_to_phase_def split_beta)
next
  case (Some cp)
  let ?e1 = "e\<lparr>checkpoint_manager := snd (CheckpointManager_rollback_to_phase (checkpoint_manager e) p)\<rparr>"
  have r: "WorkflowExecutor_rollback_to_checkpoint h ?e1 (checkpoint_id cp) ev = Inr (True, h1, e1)"
    using assms Some by (simp add: WorkflowExecutor_rollback_to_phase_def split_beta)
  have l: "get_checkpoint (checkpoint_manager ?e1) (checkpoint_id cp) = Some cp"
    using manager_rollback_phase_lookup [OF Some] by simp
  show ?thesis
    using rollback_succeeded [OF r] l Some by auto
qed

lemma step_expected_phase:
  assumes st: "step ev c (h, e) = Inr (out, h1, e1)"
      and inv: "current_phase (workflow_state e) = expected_phase e b"
  shows "current_phase (workflow_state e1) =
           expected_phase e1
             (if out = RolledBack True then map_option cp_phase (rollback_target c e)
              else if out = Accepted True then None
              else b)"
proof (cases "out = RolledBack True")
  case True
  show ?thesis
  proof (cases c)
    case (RollbackToCheckpoint cid)
    then have "WorkflowExecutor_rollback_to_checkpoint h e cid ev = Inr (True, h1, e1)"
      using st True by (auto split: sum.splits)
    from rollback_succeeded [OF this] show ?thesis
      using True RollbackToCheckpoint by (auto simp: expected_phase_def)
  next
    case (RollbackToPhase p)
    then have "WorkflowExecutor_rollback_to_phase h e p ev = Inr (True, h1, e1)"
      using st True by (auto split: sum.splits)
    from rollback_phase_succeeded [OF this] show ?thesis
      using True RollbackToPhase by (auto simp: expected_phase_def)
  qed (use st True in \<open>auto simp: split_beta\<close>)
next
  case False
  note W = step_workflow_state [OF st]
  from W False consider
      (stroke) sid where "out = StrokeId sid" "workflow_state e1 = record_stroke (workflow_state e)"
    | (trans) p r m where
        "out = Accepted (fst (WorkflowState_transition_to_phase (workflow_state e) p r m 1
                                (now_transition ev) (now_phase_start ev)))"
        "workflow_state e1 = snd (WorkflowState_transition_to_phase (workflow_state e) p r m 1
                                (now_transition ev) (now_phase_start ev))"
    | (same) "out \<noteq> Accepted True" "workflow_state e1 = workflow_state e"
    by blast
  then show ?thesis
  proof cases
    case stroke
    then have "phase_history (workflow_state e1) = phase_history (workflow_state e)"
              "current_phase (workflow_state e1) = current_phase (workflow_state e)"
      by (simp_all add: record_stroke_def Let_def)
    then show ?thesis
      using inv False stroke(1) by (simp add: expected_phase_def split: option.splits)
  next
    case trans
    then show ?thesis
      using inv False
      by (auto simp: expected_phase_def WorkflowState_transition_to_phase_def Let_def
            split: if_splits option.splits)
  next
    case same
    then show ?thesis
      using inv False by (simp add: expected_phase_def split: option.splits)
  qed
qed

lemma run_expected_phase:
  "run calls s = Inr s' \<Longrightarrow> current_phase (workflow_state (snd s)) = expected_phase (snd s) b \<Longrightarrow>
   current_phase (workflow_state (snd s')) = expected_phase (snd s') (restored_phase calls s b)"
proof (induction calls arbitrary: s b)
  case Nil
  then show ?case by auto
next
  case (Cons a calls)
  obtain ev c where a: "a = (ev, c)" by (cases a)
  obtain h e where s: "s = (h, e)" by (cases s)
  from Cons.prems(1) obtain out h1 e1 where
    st: "step ev c (h, e) = Inr (out, h1, e1)" and r: "run calls (h1, e1) = Inr s'"
    by (auto simp: a s split: sum.splits)
  have inv: "current_phase (workflow_state e) = expected_phase e b"
    using Cons.prems(2) by (simp add: s)
  from Cons.IH [OF r, of "if out = RolledBack True then map_option cp_phase (rollback_target c e)
              else if out = Accepted True then None else b"]
       step_expected_phase [OF st inv]
  show ?case
    using st by (simp add: a s)
qed

lemma init_expected_phase:
  "current_phase (workflow_state (WorkflowExecutor_init cv mx lg ev0))
     = expected_phase (WorkflowExecutor_init cv mx lg ev0) None"
  using init_consistent [of cv mx lg ev0] by (simp add: phase_consistent_def expected_phase_def)

text \<open>
  Claim C8, amended. After every sequence of executor calls on a freshly constructed
  executor (strokes, transitions, checkpoints, rollbacks, evaluations) that ends without an
  exception: when a rollback has succeeded and no transition has been accepted since,
  \<open>current_phase\<close> is the phase of the checkpoint restored by the last such rollback;
  otherwise \<open>current_phase\<close> is the \<open>to_phase\<close> of the last record of \<open>phase_history\<close>,
  or Sketch when the history is empty. A rollback leaves \<open>phase_history\<close> as it is, so
  the invariant of the claim holds exactly when no such rollback is pending or the restored
  checkpoint's phase is the phase in which the history ends.
\<close>

theorem C8_phase_invariant:
  assumes "run calls (h0, WorkflowExecutor_init cv mx lg ev0) = Inr (h, e)"
  shows "current_phase (workflow_state e) =
           (case restored_phase calls (h0, WorkflowExecutor_init cv mx lg ev0) None of
              Some p \<Rightarrow> p
            | None \<Rightarrow>
                (if phase_history (workflow_state e) = [] then SKETCH
                 else to_phase (last (phase_history (workflow_state e)))))
     \<and> phase_consistent e =
           (case restored_phase calls (h0, WorkflowExecutor_init cv mx lg ev0) None of
              Some p \<Rightarrow>
                p = (if phase_history (workflow_state e) = [] then SKETCH
                     else to_phase (last (phase_history (workflow_state e))))
            | None \<Rightarrow> True)"
  using run_expected_phase [OF assms, of None] init_expected_phase [of cv mx lg ev0]
  by (auto simp: expected_phase_def phase_consistent_def split: option.splits)

lemmas run_defs =
  WorkflowExecutor_transition_to_phase_def WorkflowState_transition_to_phase_def valid_simps
  close_phase_def PhaseDecisionLog_close_phase_def get_improvement_score_def List.map_filter_def

lemmas rollback_eval_defs =
  WorkflowExecutor_rollback_to_phase_def CheckpointManager_rollback_to_phase_def
  CheckpointManager_rollback_to_checkpoint_def WorkflowExecutor_rollback_to_checkpoint_def
  get_checkpoints_by_phase_def restore_checkpoint_def get_stroke_history_at_checkpoint_def
  Canvas_from_dict_def Layer_from_dict_def BlendMode_of_value_def Canvas_post_init_def
  Stroke_from_dict_def StrokeType_of_value_def enumerate_eq_zip

lemma undo_run:
  "\<not> isl (run undo_calls (example_heap, example_executor))"
  "current_phase (workflow_state (snd (projr (run undo_calls (example_heap, example_executor))))) = REFINEMENT"
  "map to_phase (phase_history (workflow_state (snd (projr (run undo_calls (example_heap, example_executor))))))
     = [REFINEMENT]"
  "stroke_history (snd (projr (run undo_calls (example_heap, example_executor)))) = []"
  "restored_phase undo_calls (example_heap, example_executor) None = Some REFINEMENT"
  by (simp_all add: undo_calls_def example_defs executor_defs run_defs rollback_eval_defs
        Let_def split_beta)

theorem C8_phase_invariant_witness:
  "run undo_calls (example_heap, WorkflowExecutor_init example_canvas 10 True (example_env 0 ''0''))
     = Inr (fst (projr (run undo_calls (example_heap, example_executor))),
            snd (projr (run undo_calls (example_heap, example_executor))))
   \<and> restored_phase undo_calls
         (example_heap, WorkflowExecutor_init example_canvas 10 True (example_env 0 ''0'')) None
       = Some REFINEMENT
   \<and> map to_phase (phase_history (workflow_state (snd (projr (run undo_calls (example_heap, example_executor))))))
       = [REFINEMENT]
   \<and> current_phase (workflow_state (snd (projr (run undo_calls (example_heap, example_executor)))))
       = REFINEMENT
   \<and> phase_consistent (snd (projr (run undo_calls (example_heap, example_executor))))"
proof -
  have r: "run undo_calls (example_heap, WorkflowExecutor_init example_canvas 10 True (example_env 0 ''0''))
     = Inr (fst (projr (run undo_calls (example_heap, example_executor))),
            snd (projr (run undo_calls (example_heap, example_executor))))"
    using undo_run(1)
    by (cases "run undo_calls (example_heap, example_executor)") (auto simp: example_executor_def)
  have p: "restored_phase undo_calls
         (example_heap, WorkflowExecutor_init example_canvas 10 True (example_env 0 ''0'')) None
       = Some REFINEMENT"
    using undo_run(5) by (simp add: example_executor_def)
  have l: "phase_history (workflow_state (snd (projr (run undo_calls (example_heap, example_executor))))) \<noteq> []
    \<and> to_phase (last (phase_history (workflow_state (snd (projr (run undo_calls (example_heap, example_executor)))))))
        = REFINEMENT"
    using undo_run(3) by (auto simp: last_map [symmetric] simp del: last_map)
  note T = C8_phase_invariant [OF r]
  show ?thesis
    using r p l T undo_run(3) by simp
qed

lemma revisit_run:
  "\<not> isl (run revisit_calls (example_heap, example_executor))"
  "current_phase (workflow_state (snd (projr (run revisit_calls (example_heap, example_executor))))) = SKETCH"
  "total_strokes (workflow_state (snd (projr (run revisit_calls (example_heap, example_executor))))) = 2"
  "phase_stroke_count (workflow_state (snd (projr (run revisit_calls (example_heap, example_executor))))) = 0"
  "get_phase_stroke_count (fst (projr (run revisit_calls (example_heap, example_executor))))
     (snd (projr (run revisit_calls (example_heap, example_executor)))) SKETCH = Inr 1"
  "map_option get_total_stroke_count
     (decision_logger (snd (projr (run revisit_calls (example_heap, example_executor))))) = Some 2"
  by (simp_all add: revisit_calls_def example_defs executor_defs run_defs get_phase_stroke_count_def
        get_total_stroke_count_def get_stroke_count_def Let_def split_beta)

lemma revisit_trace:
  "strokes_since_transition revisit_calls (example_heap, example_executor) 0 = 0"
  "strokes_in_phase SKETCH revisit_calls (example_heap, example_executor) = 1"
  "no_rollbacks revisit_calls"
  "map stroke_metadata (executed_strokes revisit_calls) = [2, 3]"
  by (simp_all add: revisit_calls_def example_defs executor_defs run_defs Let_def split_beta)

lemma transition_counters:
  "total_strokes (snd (WorkflowState_transition_to_phase ws p r m c t1 t2)) = total_strokes ws"
  "phase_stroke_count (snd (WorkflowState_transition_to_phase ws p r m c t1 t2)) =
     (if fst (WorkflowState_transition_to_phase ws p r m c t1 t2) then 0 else phase_stroke_count ws)"
  by (simp_all add: WorkflowState_transition_to_phase_def Let_def)

lemma record_stroke_counters:
  "total_strokes (record_stroke ws) = total_strokes ws + 1"
  "phase_stroke_count (record_stroke ws) = phase_stroke_count ws + 1"
  "current_phase (record_stroke ws) = current_phase ws"
  by (simp_all add: record_stroke_def Let_def)

lemma step_no_rollback:
  assumes "no_rollbacks ((ev, c) # rest)"
  shows "no_rollbacks rest"
    and "\<exists>out h1 e1. step ev c (h, e) = Inr (out, h1, e1)"
  using assms by (cases c; simp add: split_beta)+

lemma step_counts:
  assumes "step ev c (h, e) = Inr (out, h1, e1)" and "no_rollbacks ((ev, c) # rest)"
  shows "total_strokes (workflow_state e1) =
           total_strokes (workflow_state e) + int (length (executed_strokes [(ev, c)]))"
    and "stroke_history e1 = stroke_history e @ executed_strokes [(ev, c)]"
    and "phase_stroke_count (workflow_state e1) =
           (case out of StrokeId sid \<Rightarrow> phase_stroke_count (workflow_state e) + 1
            | Accepted ok \<Rightarrow> (if ok then 0 else phase_stroke_count (workflow_state e))
            | _ \<Rightarrow> phase_stroke_count (workflow_state e))"
proof -
  show "total_strokes (workflow_state e1) =
           total_strokes (workflow_state e) + int (length (executed_strokes [(ev, c)]))"
    using assms
    by (cases c)
       (auto simp: split_beta prod_eq_iff execute_stroke_frame record_stroke_counters executor_transition_frame
          transition_counters create_checkpoint_frame evaluate_frame)
  show "stroke_history e1 = stroke_history e @ executed_strokes [(ev, c)]"
    using assms
    by (cases c)
       (auto simp: split_beta prod_eq_iff execute_stroke_frame executor_transition_frame
          create_checkpoint_frame evaluate_frame)
  show "phase_stroke_count (workflow_state e1) =
           (case out of StrokeId sid \<Rightarrow> phase_stroke_count (workflow_state e) + 1
            | Accepted ok \<Rightarrow> (if ok then 0 else phase_stroke_count (workflow_state e))
            | _ \<Rightarrow> phase_stroke_count (workflow_state e))"
    using assms
    by (cases c)
       (auto simp: split_beta prod_eq_iff execute_stroke_frame record_stroke_counters executor_transition_frame
          transition_counters create_checkpoint_frame evaluate_frame)
qed

lemma executed_strokes_Cons:
  "executed_strokes (a # rest) = executed_strokes [a] @ executed_strokes rest"
  by (cases a; cases "snd a") auto

lemma run_counts:
  "run calls (h, e) = Inr (h', e') \<Longrightarrow> no_rollbacks calls \<Longrightarrow>
     total_strokes (workflow_state e') =
       total_strokes (workflow_state e) + int (length (executed_strokes calls))
     \<and> stroke_history e' = stroke_history e @ executed_strokes calls"
proof (induction calls arbitrary: h e)
  case Nil
  then show ?case by simp
next
  case (Cons a calls)
  obtain ev c where a: "a = (ev, c)" by (cases a)
  from Cons.prems(1) obtain out h1 e1 where
    st: "step ev c (h, e) = Inr (out, h1, e1)" and r: "run calls (h1, e1) = Inr (h', e')"
    by (auto simp: a split: sum.splits)
  have nr: "no_rollbacks ((ev, c) # calls)" using Cons.prems(2) by (simp add: a)
  note IH = Cons.IH [OF r step_no_rollback(1) [OF nr]]
  show ?case
    using IH step_counts(1,2) [OF st nr] executed_strokes_Cons [of a calls]
    by (simp add: a)
qed

lemma run_phase_stroke_count:
  "run calls (h, e) = Inr (h', e') \<Longrightarrow> no_rollbacks calls \<Longrightarrow>
   phase_stroke_count (workflow_state e) = int n \<Longrightarrow>
   phase_stroke_count (workflow_state e') = int (strokes_since_transition calls (h, e) n)"
proof (induction calls arbitrary: h e n)
  case Nil
  then show ?case by simp
next
  case (Cons a calls)
  obtain ev c where a: "a = (ev, c)" by (cases a)
  from Cons.prems(1) obtain out h1 e1 where
    st: "step ev c (h, e) = Inr (out, h1, e1)" and r: "run calls (h1, e1) = Inr (h', e')"
    by (auto simp: a split: sum.splits)
  have nr: "no_rollbacks ((ev, c) # calls)" using Cons.prems(2) by (simp add: a)
  let ?n = "case out of StrokeId sid \<Rightarrow> n + 1 | Accepted ok \<Rightarrow> (if ok then 0 else n) | _ \<Rightarrow> n"
  have "phase_stroke_count (workflow_state e1) = int ?n"
    using step_counts(3) [OF st nr] Cons.prems(3) by (cases out) auto
  from Cons.IH [OF r step_no_rollback(1) [OF nr] this]
  show ?case
    using st by (simp add: a)
qed

lemma map_update_same:
  "(\<And>l. g (f l) = g l) \<Longrightarrow> map g (xs[i := f (xs ! i)]) = map g xs"
  by (induction xs arbitrary: i) (auto split: nat.splits)

lemma sum_update_add:
  "i < length xs \<Longrightarrow> (\<And>l. g (f l) = g l + k) \<Longrightarrow>
   sum_list (map g (xs[i := f (xs ! i)])) = sum_list (map g xs) + (k::int)"
  by (induction xs arbitrary: i) (auto split: nat.splits)

lemma on_current_log_same:
  assumes "\<And>l. get_stroke_count (f l) = get_stroke_count l"
  shows "get_total_stroke_count (on_current_log f lg) = get_total_stroke_count lg"
    and "log_ok (on_current_log f lg) = log_ok lg"
    and "current_log (on_current_log f lg) = current_log lg"
    and "length (phase_logs (on_current_log f lg)) = length (phase_logs lg)"
  using assms map_update_same [of get_stroke_count f]
  by (auto simp: on_current_log_def get_total_stroke_count_def log_ok_def split: option.splits)

lemma close_keeps_strokes:
  "get_stroke_count (PhaseDecisionLog_close_phase fa r n l) = get_stroke_count l"
  by (simp add: PhaseDecisionLog_close_phase_def get_stroke_count_def Let_def)

lemma evaluation_keeps_strokes:
  "get_stroke_count (add_evaluation m n l) = get_stroke_count l"
  by (simp add: add_evaluation_def get_stroke_count_def)

lemma start_phase_total:
  "get_total_stroke_count (start_phase fa p md n1 n2 lg) = get_total_stroke_count lg"
  "log_ok (start_phase fa p md n1 n2 lg)"
proof -
  let ?s1 = "case current_log lg of
                  None \<Rightarrow> lg
                | Some i \<Rightarrow>
                    if end_time (phase_logs lg ! i) = None
                    then on_current_log (PhaseDecisionLog_close_phase fa ''Phase transition'' n1) lg
                    else lg"
  have t: "get_total_stroke_count ?s1 = get_total_stroke_count lg"
    using on_current_log_same(1) [of "PhaseDecisionLog_close_phase fa ''Phase transition'' n1" lg]
    by (auto simp: close_keeps_strokes split: option.splits)
  show "get_total_stroke_count (start_phase fa p md n1 n2 lg) = get_total_stroke_count lg"
    using t by (simp add: start_phase_def Let_def get_total_stroke_count_def get_stroke_count_def)
  show "log_ok (start_phase fa p md n1 n2 lg)"
    by (simp add: start_phase_def Let_def log_ok_def)
qed

lemma close_phase_total:
  "get_total_stroke_count (close_phase fa r n lg) = get_total_stroke_count lg"
  "log_ok (close_phase fa r n lg) = log_ok lg"
  using on_current_log_same(1,2) [of "PhaseDecisionLog_close_phase fa r n" lg]
  by (simp_all add: close_phase_def close_keeps_strokes)

lemma log_evaluation_total:
  "get_total_stroke_count (log_evaluation m n lg) = get_total_stroke_count lg"
  "log_ok (log_evaluation m n lg) = log_ok lg"
  using on_current_log_same(1,2) [of "add_evaluation m n" lg]
  by (simp_all add: log_evaluation_def evaluation_keeps_strokes)

lemma decision_adds_stroke:
  "get_stroke_count (add_stroke_decision d l) = get_stroke_count l + 1"
  by (simp add: add_stroke_decision_def get_stroke_count_def)

lemma log_stroke_total:
  assumes "log_ok lg"
  shows "get_total_stroke_count (log_stroke fa sid i ph pu t a pre post sd md n1 n2 n3 lg)
           = get_total_stroke_count lg + 1"
    and "log_ok (log_stroke fa sid i ph pu t a pre post sd md n1 n2 n3 lg)"
proof -
  from assms obtain k where k: "current_log lg = Some k" "k < length (phase_logs lg)"
    by (auto simp: log_ok_def split: option.splits)
  show "get_total_stroke_count (log_stroke fa sid i ph pu t a pre post sd md n1 n2 n3 lg)
           = get_total_stroke_count lg + 1"
    using k sum_update_add [of k "phase_logs lg" get_stroke_count "add_stroke_decision d" 1 for d]
    by (simp add: log_stroke_def Let_def on_current_log_def get_total_stroke_count_def
          decision_adds_stroke)
  show "log_ok (log_stroke fa sid i ph pu t a pre post sd md n1 n2 n3 lg)"
    using k by (simp add: log_stroke_def Let_def on_current_log_def log_ok_def)
qed

lemma step_logger:
  assumes "step ev c (h, e) = Inr (out, h1, e1)" and "no_rollbacks ((ev, c) # rest)"
      and "logger_counts e enabled n"
  shows "logger_counts e1 enabled (n + length (executed_strokes [(ev, c)]))"
proof (cases c)
  case (ExecuteStroke s i pu t a pre post)
  then show ?thesis
    using assms
    by (auto simp: split_beta prod_eq_iff execute_stroke_def Let_def logger_counts_def
          log_stroke_total split: option.splits)
next
  case (TransitionToPhase p r m mk)
  then show ?thesis
    using assms
    by (auto simp: split_beta prod_eq_iff WorkflowExecutor_transition_to_phase_def Let_def
          logger_counts_def start_phase_total close_phase_total create_checkpoint_frame
          split: option.splits if_splits)
next
  case (CreateCheckpoint d md)
  then show ?thesis
    using assms
    by (auto simp: split_beta prod_eq_iff logger_counts_def create_checkpoint_frame
          split: option.splits)
next
  case (EvaluateAndDecide m thr)
  then show ?thesis
    using assms
    by (auto simp: split_beta prod_eq_iff evaluate_and_decide_transition_def Let_def
          logger_counts_def log_evaluation_total split: option.splits if_splits)
qed (use assms in auto)

lemma run_logger:
  "run calls (h, e) = Inr (h', e') \<Longrightarrow> no_rollbacks calls \<Longrightarrow> logger_counts e enabled n \<Longrightarrow>
   logger_counts e' enabled (n + length (executed_strokes calls))"
proof (induction calls arbitrary: h e n)
  case Nil
  then show ?case by simp
next
  case (Cons a calls)
  obtain ev c where a: "a = (ev, c)" by (cases a)
  from Cons.prems(1) obtain out h1 e1 where
    st: "step ev c (h, e) = Inr (out, h1, e1)" and r: "run calls (h1, e1) = Inr (h', e')"
    by (auto simp: a split: sum.splits)
  have nr: "no_rollbacks ((ev, c) # calls)" using Cons.prems(2) by (simp add: a)
  from Cons.IH [OF r step_no_rollback(1) [OF nr] step_logger [OF st nr Cons.prems(3)]]
  show ?case
    using executed_strokes_Cons [of a calls] by (simp add: a add.assoc)
qed

lemma init_logger_total: "get_total_stroke_count DecisionLogger_init = 0"
  by (simp add: DecisionLogger_init_def get_total_stroke_count_def)

lemma init_logger: "logger_counts (WorkflowExecutor_init cv mx lg ev0) lg 0"
  by (simp add: logger_counts_def WorkflowExecutor_init_def Let_def create_checkpoint_frame
        start_phase_total init_logger_total)

lemma init_counters:
  "total_strokes (workflow_state (WorkflowExecutor_init cv mx lg ev0)) = 0"
  "phase_stroke_count (workflow_state (WorkflowExecutor_init cv mx lg ev0)) = 0"
  "stroke_history (WorkflowExecutor_init cv mx lg ev0) = []"
  by (simp_all add: WorkflowExecutor_init_def Let_def create_checkpoint_frame WorkflowState_init_def
        split: option.splits)

lemma count_tagged:
  "(\<And>s. s \<in> set ss \<Longrightarrow> has_workflow h s) \<Longrightarrow>
   count_phase_strokes h v ss n = Inr (n + int (length (filter (tagged h v) ss)))"
proof (induction ss arbitrary: n)
  case Nil
  then show ?case by simp
next
  case (Cons s ss)
  have "has_workflow h s" using Cons.prems by simp
  then obtain wm where wm: "map_of (cells h (stroke_metadata s)) ''workflow'' = Some (PDict wm)"
    by (auto simp: has_workflow_def split: option.splits pyval.splits)
  show ?case
    using Cons.IH Cons.prems wm by (simp add: tagged_def)
qed

lemma phase_value_inj: "phase_value p = phase_value q \<longleftrightarrow> p = q"
  by (cases p; cases q) simp_all

lemma execute_stroke_heap:
  "a \<noteq> stroke_metadata s \<Longrightarrow>
     cells (fst (snd (execute_stroke h e s i pu t ac pre post ev))) a = cells h a"
  "has_workflow (fst (snd (execute_stroke h e s i pu t ac pre post ev))) s"
  "tagged (fst (snd (execute_stroke h e s i pu t ac pre post ev))) (phase_value p) s
     = (current_phase (workflow_state e) = p)"
  by (auto simp: execute_stroke_def Let_def dict_setitem_def has_workflow_def tagged_def
        update_conv' StrokeMetadata_to_dict_def phase_value_inj)

lemma tagged_cong:
  "cells h1 (stroke_metadata s) = cells h (stroke_metadata s) \<Longrightarrow>
     tagged h1 v s = tagged h v s \<and> has_workflow h1 s = has_workflow h s"
  by (simp add: tagged_def has_workflow_def)

lemma step_tags:
  assumes st: "step ev c (h, e) = Inr (out, h1, e1)"
      and nr: "no_rollbacks ((ev, c) # rest)"
      and wf: "\<And>s. s \<in> set (stroke_history e) \<Longrightarrow> has_workflow h s"
      and dj: "stroke_metadata ` set (executed_strokes [(ev, c)]) \<inter> stroke_metadata ` set (stroke_history e) = {}"
  shows "\<And>s. s \<in> set (stroke_history e1) \<Longrightarrow> has_workflow h1 s"
    and "length (filter (tagged h1 (phase_value p)) (stroke_history e1)) =
           length (filter (tagged h (phase_value p)) (stroke_history e))
           + (case out of
                StrokeId sid \<Rightarrow> (if current_phase (workflow_state e) = p then 1 else 0)
              | _ \<Rightarrow> 0)"
proof -
  have both: "(\<forall>s \<in> set (stroke_history e1). has_workflow h1 s)
    \<and> length (filter (tagged h1 (phase_value p)) (stroke_history e1)) =
           length (filter (tagged h (phase_value p)) (stroke_history e))
           + (case out of
                StrokeId sid \<Rightarrow> (if current_phase (workflow_state e) = p then 1 else 0)
              | _ \<Rightarrow> 0)"
  proof (cases c)
    case (ExecuteStroke s i pu t ac pre post)
    let ?x = "execute_stroke h e s i pu t ac pre post ev"
    have h1: "h1 = fst (snd ?x)" and e1: "e1 = snd (snd ?x)" and out: "out = StrokeId (fst ?x)"
      using st ExecuteStroke by (auto simp: split_beta)
    have hist: "stroke_history e1 = stroke_history e @ [s]"
      by (simp add: e1 execute_stroke_frame)
    have old: "tagged h1 v s' = tagged h v s' \<and> has_workflow h1 s' = has_workflow h s'"
      if "s' \<in> set (stroke_history e)" for s' v
    proof -
      have "stroke_metadata s' \<noteq> stroke_metadata s"
        using dj that ExecuteStroke by (auto simp: image_iff)
      then show ?thesis
        using tagged_cong [of h1 s' h v] execute_stroke_heap(1) [of "stroke_metadata s'" s h e i pu t ac pre post ev]
        by (simp add: h1)
    qed
    have f: "filter (tagged h1 (phase_value p)) (stroke_history e) =
             filter (tagged h (phase_value p)) (stroke_history e)"
      using old by (auto intro: filter_cong)
    show ?thesis
      using old wf f execute_stroke_heap(2) [of h e s i pu t ac pre post ev]
        execute_stroke_heap(3) [of h e s i pu t ac pre post ev p]
      by (auto simp: hist h1 [symmetric] out)
  next
    case (TransitionToPhase q r m mk)
    then show ?thesis
      using st wf by (auto simp: split_beta prod_eq_iff executor_transition_frame)
  next
    case (CreateCheckpoint d md)
    then show ?thesis
      using st wf by (auto simp: split_beta prod_eq_iff create_checkpoint_frame)
  next
    case (EvaluateAndDecide m thr)
    then show ?thesis
      using st wf by (auto simp: split_beta prod_eq_iff evaluate_frame)
  qed (use nr in auto)
  show "\<And>s. s \<in> set (stroke_history e1) \<Longrightarrow> has_workflow h1 s"
    using both by blast
  show "length (filter (tagged h1 (phase_value p)) (stroke_history e1)) =
           length (filter (tagged h (phase_value p)) (stroke_history e))
           + (case out of
                StrokeId sid \<Rightarrow> (if current_phase (workflow_state e) = p then 1 else 0)
              | _ \<Rightarrow> 0)"
    using both by blast
qed

lemma run_tags:
  "run calls (h, e) = Inr (h', e') \<Longrightarrow> no_rollbacks calls \<Longrightarrow>
   distinct (map stroke_metadata (executed_strokes calls)) \<Longrightarrow>
   stroke_metadata ` set (executed_strokes calls) \<inter> stroke_metadata ` set (stroke_history e) = {} \<Longrightarrow>
   (\<And>s. s \<in> set (stroke_history e) \<Longrightarrow> has_workflow h s) \<Longrightarrow>
   (\<forall>s \<in> set (stroke_history e'). has_workflow h' s)
   \<and> length (filter (tagged h' (phase_value p)) (stroke_history e')) =
       length (filter (tagged h (phase_value p)) (stroke_history e)) + strokes_in_phase p calls (h, e)"
proof (induction calls arbitrary: h e)
  case Nil
  then show ?case by simp
next
  case (Cons a calls)
  obtain ev c where a: "a = (ev, c)" by (cases a)
  from Cons.prems(1) obtain out h1 e1 where
    st: "step ev c (h, e) = Inr (out, h1, e1)" and r: "run calls (h1, e1) = Inr (h', e')"
    by (auto simp: a split: sum.splits)
  have nr: "no_rollbacks ((ev, c) # calls)" using Cons.prems(2) by (simp add: a)
  have ex: "executed_strokes (a # calls) = executed_strokes [(ev, c)] @ executed_strokes calls"
    using executed_strokes_Cons [of a calls] by (simp add: a)
  have dj: "stroke_metadata ` set (executed_strokes [(ev, c)]) \<inter> stroke_metadata ` set (stroke_history e) = {}"
    using Cons.prems(4) ex by auto
  note T = step_tags(1) [OF st nr Cons.prems(5) dj]
           step_tags(2) [OF st nr Cons.prems(5) dj, where p = p]
  have hist: "stroke_history e1 = stroke_history e @ executed_strokes [(ev, c)]"
    using step_counts(2) [OF st nr] .
  have d1: "distinct (map stroke_metadata (executed_strokes calls))"
    using Cons.prems(3) ex by simp
  have d2: "stroke_metadata ` set (executed_strokes calls) \<inter> stroke_metadata ` set (stroke_history e1) = {}"
    using Cons.prems(3,4) ex hist by auto
  note IH = Cons.IH [OF r step_no_rollback(1) [OF nr] d1 d2 T(1)]
  show ?case
    using IH T(2) st by (simp add: a)
qed

text \<open>
  Claim C10, as stated, fails for \<open>get_phase_stroke_count\<close>: after a stroke at Sketch, a
  move to Refinement, a stroke there and the return to Sketch, no stroke has been recorded
  since the transition into the current phase, and \<open>get_phase_stroke_count\<close> of the
  current phase is 1: the stroke of the earlier visit is counted.
\<close>

theorem C10_counts_earlier_visits:
  "\<not> isl (run revisit_calls (example_heap, example_executor))
   \<and> no_rollbacks revisit_calls
   \<and> length (executed_strokes revisit_calls) = 2
   \<and> current_phase (workflow_state (snd (projr (run revisit_calls (example_heap, example_executor))))) = SKETCH
   \<and> strokes_since_transition revisit_calls (example_heap, example_executor) 0 = 0
   \<and> get_phase_stroke_count (fst (projr (run revisit_calls (example_heap, example_executor))))
         (snd (projr (run revisit_calls (example_heap, example_executor)))) SKETCH = Inr 1
   \<and> get_phase_stroke_count (fst (projr (run revisit_calls (example_heap, example_executor))))
         (snd (projr (run revisit_calls (example_heap, example_executor))))
         (current_phase (workflow_state (snd (projr (run revisit_calls (example_heap, example_executor))))))
       \<noteq> Inr (int (strokes_since_transition revisit_calls (example_heap, example_executor) 0))"
  using revisit_run(1,2,5) revisit_trace(1,3)
        arg_cong [OF revisit_trace(4), of length]
  by simp

text \<open>
  Claim C10, amended. After a sequence of calls without rollbacks on a freshly constructed
  executor, of which \<open>N\<close> are \<open>execute_stroke\<close> calls, \<open>total_strokes\<close> is \<open>N\<close>, the
  stroke history has \<open>N\<close> entries and the decision logger, when logging is enabled, has
  logged \<open>N\<close> strokes; \<open>phase_stroke_count\<close> of the workflow state is the number of
  strokes executed since the last accepted transition; and, when every executed stroke has
  a metadata dictionary of its own, \<open>get_phase_stroke_count p\<close> returns the number of
  strokes executed while the current phase was \<open>p\<close>, the strokes of earlier visits of
  \<open>p\<close> included.
\<close>

theorem C10_stroke_counts:
  assumes "run calls (h0, WorkflowExecutor_init cv mx lg ev0) = Inr (h, e)"
      and "no_rollbacks calls"
  shows "total_strokes (workflow_state e) = int (length (executed_strokes calls))
    \<and> length (stroke_history e) = length (executed_strokes calls)
    \<and> map_option get_total_stroke_count (decision_logger e) =
         (if lg then Some (int (length (executed_strokes calls))) else None)
    \<and> phase_stroke_count (workflow_state e) =
         int (strokes_since_transition calls (h0, WorkflowExecutor_init cv mx lg ev0) 0)
    \<and> (distinct (map stroke_metadata (executed_strokes calls)) \<longrightarrow>
         get_phase_stroke_count h e p =
           Inr (int (strokes_in_phase p calls (h0, WorkflowExecutor_init cv mx lg ev0))))"
proof -
  let ?e0 = "WorkflowExecutor_init cv mx lg ev0"
  have a: "total_strokes (workflow_state e) = int (length (executed_strokes calls))"
          "length (stroke_history e) = length (executed_strokes calls)"
    using run_counts [OF assms] by (simp_all add: init_counters)
  have "logger_counts e lg (0 + length (executed_strokes calls))"
    using run_logger [OF assms init_logger] .
  then have b: "map_option get_total_stroke_count (decision_logger e) =
         (if lg then Some (int (length (executed_strokes calls))) else None)"
    by (auto simp: logger_counts_def split: option.splits)
  have c: "phase_stroke_count (workflow_state e) = int (strokes_since_transition calls (h0, ?e0) 0)"
    using run_phase_stroke_count [OF assms, of 0] by (simp add: init_counters)
  have d: "get_phase_stroke_count h e p = Inr (int (strokes_in_phase p calls (h0, ?e0)))"
    if "distinct (map stroke_metadata (executed_strokes calls))"
  proof -
    have "(\<forall>s \<in> set (stroke_history e). has_workflow h s)
      \<and> length (filter (tagged h (phase_value p)) (stroke_history e)) =
          length (filter (tagged h0 (phase_value p)) (stroke_history ?e0)) + strokes_in_phase p calls (h0, ?e0)"
      using run_tags [OF assms that, of p] by (simp add: init_counters)
    then show ?thesis
      using count_tagged [of "stroke_history e" h "phase_value p" 0]
      by (simp add: get_phase_stroke_count_def init_counters)
  qed
  show ?thesis
    using a b c d by simp
qed

theorem C10_stroke_counts_witness:
  "run revisit_calls (example_heap, WorkflowExecutor_init example_canvas 10 True (example_env 0 ''0''))
     = Inr (fst (projr (run revisit_calls (example_heap, example_executor))),
            snd (projr (run revisit_calls (example_heap, example_executor))))
   \<and> no_rollbacks revisit_calls
   \<and> distinct (map stroke_metadata (executed_strokes revisit_calls))
   \<and> length (executed_strokes revisit_calls) = 2
   \<and> total_strokes (workflow_state (snd (projr (run revisit_calls (example_heap, example_executor))))) = 2
   \<and> map_option get_total_stroke_count
        (decision_logger (snd (projr (run revisit_calls (example_heap, example_executor))))) = Some 2
   \<and> phase_stroke_count (workflow_state (snd (projr (run revisit_calls (example_heap, example_executor))))) = 0
   \<and> get_phase_stroke_count (fst (projr (run revisit_calls (example_heap, example_executor))))
        (snd (projr (run revisit_calls (example_heap, example_executor)))) SKETCH = Inr 1"
proof -
  have r: "run revisit_calls (example_heap, WorkflowExecutor_init example_canvas 10 True (example_env 0 ''0''))
     = Inr (fst (projr (run revisit_calls (example_heap, example_executor))),
            snd (projr (run revisit_calls (example_heap, example_executor))))"
    using revisit_run(1)
    by (cases "run revisit_calls (example_heap, example_executor)") (auto simp: example_executor_def)
  have d: "distinct (map stroke_metadata (executed_strokes revisit_calls))"
    by (simp add: revisit_trace(4))
  have n: "length (executed_strokes revisit_calls) = 2"
    using arg_cong [OF revisit_trace(4), of length] by simp
  note T = C10_stroke_counts [OF r revisit_trace(3), of SKETCH]
  show ?thesis
    using r d n T revisit_trace(1,2,3)
    by (simp add: example_executor_def)
qed

end
